theory Spec2Isabelle
  imports Complex_Main
begin

section \<open>Data model\<close>

text \<open>
  The repository holds successive drafts of one program: \<^verbatim>\<open>Thread/Thread.cpp\<close> (the
  parallel pipeline) and an earlier handshake draft (\<^verbatim>\<open>unnamed/part_001\<close>). Both share
  the data model below. Definitions taken from the earlier draft carry the suffix
  \<open>_01\<close>; all others are from \<^verbatim>\<open>Thread/Thread.cpp\<close>.

  \<^item> \<^verbatim>\<open>Entity\<close> is \<^verbatim>\<open>uint32_t\<close>; every value the program computes is at most
    \<^verbatim>\<open>MAX_ENTITIES\<close>, so it is a \<open>nat\<close> and never wraps.
  \<^item> \<^verbatim>\<open>double\<close> coordinates are finite values, carried as \<open>real\<close>. Comparison,
    the assignment of the constants 0, 79, 24 and the multiplication by \<open>-1\<close> are exact on
    doubles. The one rounding operation, \<^verbatim>\<open>+=\<close>, is the parameter \<open>dadd\<close> of the
    physics functions, so that nothing proved here depends on how the sum is rounded.
    NaN and infinities are outside the model.
  \<^item> \<^verbatim>\<open>int health\<close> is an \<open>int\<close>: the only arithmetic on it is \<open>h - 10\<close> under the
    guard \<open>h > 0\<close>, which cannot overflow.
  \<^item> A \<^verbatim>\<open>std::vector\<close> is a list. The constructor of \<^verbatim>\<open>Scene\<close> sizes every table to
    \<^verbatim>\<open>MAX_ENTITIES\<close> and nothing resizes them; \<open>wf_scene\<close> records this.
\<close>

type_synonym Entity = nat

definition MAX_ENTITIES :: Entity where
  "MAX_ENTITIES = 1000"

record TransformComponent =
  x :: real
  y :: real

record PhysicsComponent =
  vx :: real
  vy :: real

record RenderComponent =
  symbol :: char

record HealthComponent =
  health :: int

datatype GameEvent = CollisionEvent (a: Entity) (b: Entity)

text \<open>Default member initialisers of the four components.\<close>

definition TransformComponent_default :: TransformComponent where
  "TransformComponent_default = \<lparr>x = 0, y = 0\<rparr>"

definition PhysicsComponent_default :: PhysicsComponent where
  "PhysicsComponent_default = \<lparr>vx = 0, vy = 0\<rparr>"

definition RenderComponent_default :: RenderComponent where
  "RenderComponent_default = \<lparr>symbol = CHR 0x00\<rparr>"

definition HealthComponent_default :: HealthComponent where
  "HealthComponent_default = \<lparr>health = 100\<rparr>"

subsection \<open>EventQueue\<close>

text \<open>
  \<^verbatim>\<open>m_queue\<close> is a \<^verbatim>\<open>std::deque\<close> (a \<^verbatim>\<open>std::vector\<close> in the earlier draft, popped
  with \<^verbatim>\<open>erase(begin())\<close>): a list whose head is the front. The mutex and the condition
  variable are not part of the sequential model. \<^verbatim>\<open>TryPop\<close> (\<^verbatim>\<open>Pop\<close> in the earlier
  draft) returns the optional event together with the queue it leaves.
\<close>

type_synonym EventQueue = "GameEvent list"

definition Push :: "EventQueue \<Rightarrow> GameEvent \<Rightarrow> EventQueue" where
  "Push m_queue event = m_queue @ [event]"

definition TryPop :: "EventQueue \<Rightarrow> GameEvent option \<times> EventQueue" where
  "TryPop m_queue =
     (if m_queue = [] then (None, m_queue)
      else (Some (hd m_queue), tl m_queue))"

definition Empty :: "EventQueue \<Rightarrow> bool" where
  "Empty m_queue = (m_queue = [])"

subsection \<open>Scene\<close>

record Scene =
  m_frontBufferIndex :: int
  m_transforms :: "TransformComponent list list"
  m_physics :: "PhysicsComponent list"
  m_renders :: "RenderComponent list"
  m_healths :: "HealthComponent list"
  m_entity_active :: "bool list"

definition Scene_init :: Scene where
  "Scene_init =
     \<lparr>m_frontBufferIndex = 0,
      m_transforms = [replicate MAX_ENTITIES TransformComponent_default,
                      replicate MAX_ENTITIES TransformComponent_default],
      m_physics = replicate MAX_ENTITIES PhysicsComponent_default,
      m_renders = replicate MAX_ENTITIES RenderComponent_default,
      m_healths = replicate MAX_ENTITIES HealthComponent_default,
      m_entity_active = replicate MAX_ENTITIES False\<rparr>"

definition wf_scene :: "Scene \<Rightarrow> bool" where
  "wf_scene s =
     ((m_frontBufferIndex s = 0 \<or> m_frontBufferIndex s = 1) \<and>
      length (m_transforms s) = 2 \<and>
      length (m_transforms s ! 0) = MAX_ENTITIES \<and>
      length (m_transforms s ! 1) = MAX_ENTITIES \<and>
      length (m_physics s) = MAX_ENTITIES \<and>
      length (m_renders s) = MAX_ENTITIES \<and>
      length (m_healths s) = MAX_ENTITIES \<and>
      length (m_entity_active s) = MAX_ENTITIES)"

text \<open>
  \<^verbatim>\<open>CreateEntity\<close>: the loop \<^verbatim>\<open>for (Entity i = 0; i < MAX_ENTITIES; ++i)\<close> with its early
  return, as a recursion on the loop counter. The result is the returned id and the scene.
\<close>

function CreateEntity_loop :: "Entity \<Rightarrow> Scene \<Rightarrow> Entity \<times> Scene" where
  "CreateEntity_loop i s =
     (if i < MAX_ENTITIES then
        (if \<not> m_entity_active s ! i
         then (i, s\<lparr>m_entity_active := (m_entity_active s)[i := True]\<rparr>)
         else CreateEntity_loop (Suc i) s)
      else (MAX_ENTITIES, s))"
  by pat_completeness auto
termination
  by (relation "measure (\<lambda>(i, s). MAX_ENTITIES - i)") auto

definition CreateEntity :: "Scene \<Rightarrow> Entity \<times> Scene" where
  "CreateEntity s = CreateEntity_loop 0 s"

definition GetTransformsAt :: "Scene \<Rightarrow> int \<Rightarrow> TransformComponent list" where
  "GetTransformsAt s idx = m_transforms s ! nat idx"

definition GetTransforms_Front :: "Scene \<Rightarrow> TransformComponent list" where
  "GetTransforms_Front s = m_transforms s ! nat (m_frontBufferIndex s)"

definition GetTransforms_Back :: "Scene \<Rightarrow> TransformComponent list" where
  "GetTransforms_Back s = m_transforms s ! nat (1 - m_frontBufferIndex s)"

definition LoadFrontIndex :: "Scene \<Rightarrow> int" where
  "LoadFrontIndex s = m_frontBufferIndex s"

definition StoreFrontIndex :: "Scene \<Rightarrow> int \<Rightarrow> Scene" where
  "StoreFrontIndex s idx = s\<lparr>m_frontBufferIndex := idx\<rparr>"

definition SwapTransformBuffers :: "Scene \<Rightarrow> Scene" where
  "SwapTransformBuffers s = s\<lparr>m_frontBufferIndex := 1 - m_frontBufferIndex s\<rparr>"

section \<open>PhysicsSystem\<close>

text \<open>
  The locals of a physics step that the loop writes: the back buffer, the velocity table
  and the event queue. \<^verbatim>\<open>transforms_front\<close> and \<^verbatim>\<open>active\<close> are only read. The front
  and back buffers are different vectors (\<open>back = 1 - curFront\<close>), so the front buffer
  read inside the loop is the one the step started with.
\<close>

record PhysicsLocals =
  transforms_back :: "TransformComponent list"
  physics :: "PhysicsComponent list"
  events :: EventQueue

text \<open>
  The statements of the loop bodies, one definition each:
  \<^verbatim>\<open>transforms_back[i] = transforms_front[i];\<close>, the two \<^verbatim>\<open>+=\<close> of the integration, and
  the four boundary tests of \<^verbatim>\<open>UpdateParallel\<close>.
\<close>

definition copy_front :: "TransformComponent list \<Rightarrow> Entity \<Rightarrow> PhysicsLocals \<Rightarrow> PhysicsLocals" where
  "copy_front transforms_front i st =
     st\<lparr>transforms_back := (transforms_back st)[i := transforms_front ! i]\<rparr>"

definition integrate ::
  "(real \<Rightarrow> real \<Rightarrow> real) \<Rightarrow> Entity \<Rightarrow> PhysicsLocals \<Rightarrow> PhysicsLocals" where
  "integrate dadd i st0 =
     (let st = st0\<lparr>transforms_back := (transforms_back st0)
                 [i := (transforms_back st0 ! i)
                    \<lparr>x := dadd (x (transforms_back st0 ! i)) (vx (physics st0 ! i))\<rparr>]\<rparr>;
          st = st\<lparr>transforms_back := (transforms_back st)
                 [i := (transforms_back st ! i)
                    \<lparr>y := dadd (y (transforms_back st ! i)) (vy (physics st ! i))\<rparr>]\<rparr>
      in st)"

definition boundary_x_low :: "Entity \<Rightarrow> PhysicsLocals \<Rightarrow> PhysicsLocals" where
  "boundary_x_low i st =
     (if x (transforms_back st ! i) < 0 then
        st\<lparr>transforms_back := (transforms_back st)[i := (transforms_back st ! i)\<lparr>x := 0\<rparr>],
           physics := (physics st)[i := (physics st ! i)\<lparr>vx := vx (physics st ! i) * (- 1)\<rparr>],
           events := Push (events st) (CollisionEvent i MAX_ENTITIES)\<rparr>
      else st)"

definition boundary_x_high :: "Entity \<Rightarrow> PhysicsLocals \<Rightarrow> PhysicsLocals" where
  "boundary_x_high i st =
     (if x (transforms_back st ! i) > 79 then
        st\<lparr>transforms_back := (transforms_back st)[i := (transforms_back st ! i)\<lparr>x := 79\<rparr>],
           physics := (physics st)[i := (physics st ! i)\<lparr>vx := vx (physics st ! i) * (- 1)\<rparr>],
           events := Push (events st) (CollisionEvent i MAX_ENTITIES)\<rparr>
      else st)"

definition boundary_y_low :: "Entity \<Rightarrow> PhysicsLocals \<Rightarrow> PhysicsLocals" where
  "boundary_y_low i st =
     (if y (transforms_back st ! i) < 0 then
        st\<lparr>transforms_back := (transforms_back st)[i := (transforms_back st ! i)\<lparr>y := 0\<rparr>],
           physics := (physics st)[i := (physics st ! i)\<lparr>vy := vy (physics st ! i) * (- 1)\<rparr>],
           events := Push (events st) (CollisionEvent i MAX_ENTITIES)\<rparr>
      else st)"

definition boundary_y_high :: "Entity \<Rightarrow> PhysicsLocals \<Rightarrow> PhysicsLocals" where
  "boundary_y_high i st =
     (if y (transforms_back st ! i) > 24 then
        st\<lparr>transforms_back := (transforms_back st)[i := (transforms_back st ! i)\<lparr>y := 24\<rparr>],
           physics := (physics st)[i := (physics st ! i)\<lparr>vy := vy (physics st ! i) * (- 1)\<rparr>],
           events := Push (events st) (CollisionEvent i MAX_ENTITIES)\<rparr>
      else st)"

text \<open>
  One iteration of the loop of \<^verbatim>\<open>PhysicsSystem::UpdateParallel\<close>; the four boundary
  tests run in sequence, each on the value the previous one left.
\<close>

definition UpdateParallel_body ::
  "(real \<Rightarrow> real \<Rightarrow> real) \<Rightarrow> TransformComponent list \<Rightarrow> bool list \<Rightarrow> Entity
     \<Rightarrow> PhysicsLocals \<Rightarrow> PhysicsLocals" where
  "UpdateParallel_body dadd transforms_front active i st0 =
     (if \<not> active ! i then st0
      else
        let st = copy_front transforms_front i st0
        in
        if vx (physics st ! i) \<noteq> 0 \<or> vy (physics st ! i) \<noteq> 0 then
          let st = integrate dadd i st;
              st = boundary_x_low i st;
              st = boundary_x_high i st;
              st = boundary_y_low i st;
              st = boundary_y_high i st
          in st
        else st)"

text \<open>
  \<^verbatim>\<open>PhysicsSystem::UpdateParallel\<close>: load the front index, run the loop over all ids on
  the back buffer, store the back index as the new front. Returns the scene and the queue.
\<close>

definition UpdateParallel ::
  "(real \<Rightarrow> real \<Rightarrow> real) \<Rightarrow> Scene \<Rightarrow> EventQueue \<Rightarrow> Scene \<times> EventQueue" where
  "UpdateParallel dadd scene evq =
     (let curFront = LoadFrontIndex scene;
          back = 1 - curFront;
          st = fold (UpdateParallel_body dadd (GetTransformsAt scene curFront)
                       (m_entity_active scene))
                 [0..<MAX_ENTITIES]
                 \<lparr>transforms_back = GetTransformsAt scene back,
                  physics = m_physics scene, events = evq\<rparr>;
          scene = scene\<lparr>m_transforms := (m_transforms scene)[nat back := transforms_back st],
                        m_physics := physics st\<rparr>
      in (StoreFrontIndex scene back, events st))"

text \<open>
  \<^verbatim>\<open>PhysicsSystem::Update\<close> of \<^verbatim>\<open>Thread/Thread.cpp\<close>, marked legacy there: copy,
  integrate, no boundary handling; it swaps the buffers itself before returning.
\<close>

definition Update_body ::
  "(real \<Rightarrow> real \<Rightarrow> real) \<Rightarrow> TransformComponent list \<Rightarrow> bool list \<Rightarrow> Entity
     \<Rightarrow> PhysicsLocals \<Rightarrow> PhysicsLocals" where
  "Update_body dadd transforms_front active i st0 =
     (if \<not> active ! i then st0
      else
        let st = copy_front transforms_front i st0
        in
        if vx (physics st ! i) \<noteq> 0 \<or> vy (physics st ! i) \<noteq> 0 then integrate dadd i st
        else st)"

definition Update ::
  "(real \<Rightarrow> real \<Rightarrow> real) \<Rightarrow> Scene \<Rightarrow> EventQueue \<Rightarrow> Scene \<times> EventQueue" where
  "Update dadd scene evq =
     (let st = fold (Update_body dadd (GetTransforms_Front scene) (m_entity_active scene))
                 [0..<MAX_ENTITIES]
                 \<lparr>transforms_back = GetTransforms_Back scene,
                  physics = m_physics scene, events = evq\<rparr>;
          scene = scene\<lparr>m_transforms :=
                          (m_transforms scene)[nat (1 - m_frontBufferIndex scene)
                             := transforms_back st],
                        m_physics := physics st\<rparr>
      in (SwapTransformBuffers scene, events st))"

text \<open>
  \<^verbatim>\<open>PhysicsSystem::Update\<close> of the earlier draft: the copy sits in both branches, the
  boundary tests are one disjunction per axis and do not write the position; no swap.
\<close>

definition boundary_x_01 :: "Entity \<Rightarrow> PhysicsLocals \<Rightarrow> PhysicsLocals" where
  "boundary_x_01 i st =
     (if x (transforms_back st ! i) < 0 \<or> x (transforms_back st ! i) > 79 then
        st\<lparr>physics := (physics st)[i := (physics st ! i)\<lparr>vx := vx (physics st ! i) * (- 1)\<rparr>],
           events := Push (events st) (CollisionEvent i MAX_ENTITIES)\<rparr>
      else st)"

definition boundary_y_01 :: "Entity \<Rightarrow> PhysicsLocals \<Rightarrow> PhysicsLocals" where
  "boundary_y_01 i st =
     (if y (transforms_back st ! i) < 0 \<or> y (transforms_back st ! i) > 24 then
        st\<lparr>physics := (physics st)[i := (physics st ! i)\<lparr>vy := vy (physics st ! i) * (- 1)\<rparr>],
           events := Push (events st) (CollisionEvent i MAX_ENTITIES)\<rparr>
      else st)"

definition Update_body_01 ::
  "(real \<Rightarrow> real \<Rightarrow> real) \<Rightarrow> TransformComponent list \<Rightarrow> bool list \<Rightarrow> Entity
     \<Rightarrow> PhysicsLocals \<Rightarrow> PhysicsLocals" where
  "Update_body_01 dadd transforms_front active i st0 =
     (if active ! i then
        (if vx (physics st0 ! i) \<noteq> 0 \<or> vy (physics st0 ! i) \<noteq> 0 then
           let st = copy_front transforms_front i st0;
               st = integrate dadd i st;
               st = boundary_x_01 i st;
               st = boundary_y_01 i st
           in st
         else copy_front transforms_front i st0)
      else st0)"

definition Update_01 ::
  "(real \<Rightarrow> real \<Rightarrow> real) \<Rightarrow> Scene \<Rightarrow> EventQueue \<Rightarrow> Scene \<times> EventQueue" where
  "Update_01 dadd scene evq =
     (let st = fold (Update_body_01 dadd (GetTransforms_Front scene) (m_entity_active scene))
                 [0..<MAX_ENTITIES]
                 \<lparr>transforms_back = GetTransforms_Back scene,
                  physics = m_physics scene, events = evq\<rparr>;
          scene = scene\<lparr>m_transforms :=
                          (m_transforms scene)[nat (1 - m_frontBufferIndex scene)
                             := transforms_back st],
                        m_physics := physics st\<rparr>
      in (scene, events st))"

text \<open>
  The state effect of one iteration of \<^verbatim>\<open>CPhysicsThread::Run\<close> once its request has
  arrived: \<^verbatim>\<open>system.Update(scene, events); scene.SwapTransformBuffers();\<close>. The waits and
  notifications around it are not modelled.
\<close>

definition CPhysicsThread_Run_body ::
  "(real \<Rightarrow> real \<Rightarrow> real) \<Rightarrow> Scene \<Rightarrow> EventQueue \<Rightarrow> Scene \<times> EventQueue" where
  "CPhysicsThread_Run_body dadd scene evq =
     (let (scene, evq) = Update dadd scene evq
      in (SwapTransformBuffers scene, evq))"

definition CPhysicsThread_Run_body_01 ::
  "(real \<Rightarrow> real \<Rightarrow> real) \<Rightarrow> Scene \<Rightarrow> EventQueue \<Rightarrow> Scene \<times> EventQueue" where
  "CPhysicsThread_Run_body_01 dadd scene evq =
     (let (scene, evq) = Update_01 dadd scene evq
      in (SwapTransformBuffers scene, evq))"

section \<open>RenderSystem\<close>

text \<open>
  \<^verbatim>\<open>struct RenderPacket { char symbol; int x, y; }\<close>, its three members in order. The
  cast \<^verbatim>\<open>(int)\<close> of a double truncates toward zero (the value is assumed to fit an
  \<^verbatim>\<open>int\<close>).
\<close>

datatype RenderPacket = RenderPacket char int int

definition to_int :: "real \<Rightarrow> int" where
  "to_int v = (if 0 \<le> v then \<lfloor>v\<rfloor> else \<lceil>v\<rceil>)"

text \<open>
  \<^verbatim>\<open>RenderSystem::CollectParallel\<close> of \<^verbatim>\<open>Thread/Thread.cpp\<close>: the glyph is compared with
  the space character. The scene is a \<^verbatim>\<open>const Scene&\<close>: the function has no scene to
  return.
\<close>

definition CollectParallel_body ::
  "TransformComponent list \<Rightarrow> RenderComponent list \<Rightarrow> bool list \<Rightarrow> Entity
     \<Rightarrow> RenderPacket list \<Rightarrow> RenderPacket list" where
  "CollectParallel_body transforms renders active i packets =
     (if active ! i \<and> symbol (renders ! i) \<noteq> CHR '' '' then
        packets @ [RenderPacket (symbol (renders ! i))
                     (to_int (x (transforms ! i))) (to_int (y (transforms ! i)))]
      else packets)"

definition CollectParallel :: "Scene \<Rightarrow> RenderPacket list" where
  "CollectParallel scene =
     (let curFront = LoadFrontIndex scene
      in fold (CollectParallel_body (GetTransformsAt scene curFront) (m_renders scene)
                 (m_entity_active scene))
           [0..<MAX_ENTITIES] [])"

text \<open>
  \<^verbatim>\<open>RenderSystem::Collect\<close> of the earlier draft (and of the second \<^verbatim>\<open>RenderSystem\<close> of
  \<^verbatim>\<open>Thread/Thread.cpp\<close>): the glyph is compared with the null character.
\<close>

definition Collect_body_01 ::
  "TransformComponent list \<Rightarrow> RenderComponent list \<Rightarrow> bool list \<Rightarrow> Entity
     \<Rightarrow> RenderPacket list \<Rightarrow> RenderPacket list" where
  "Collect_body_01 transforms renders active i packets =
     (if active ! i \<and> symbol (renders ! i) \<noteq> CHR 0x00 then
        packets @ [RenderPacket (symbol (renders ! i))
                     (to_int (x (transforms ! i))) (to_int (y (transforms ! i)))]
      else packets)"

definition Collect_01 :: "Scene \<Rightarrow> RenderPacket list" where
  "Collect_01 scene =
     fold (Collect_body_01 (GetTransforms_Front scene) (m_renders scene)
             (m_entity_active scene))
       [0..<MAX_ENTITIES] []"

section \<open>DamageSystem\<close>

text \<open>
  \<^verbatim>\<open>DamageSystem::DrainAndApply\<close> (\<^verbatim>\<open>DamageSystem::Update\<close> in the earlier draft, the
  same statements). The lines written to \<^verbatim>\<open>std::cout\<close> are collected as pairs of the
  entity and the health printed. \<^verbatim>\<open>healths[arg.a]\<close> with \<open>arg.a\<close> past the end of the
  vector has no defined behaviour in the source; the model stops with \<open>OutOfRange\<close>.
\<close>

datatype fault = OutOfRange

type_synonym report = "(Entity \<times> int) list"

definition visit_event ::
  "Scene \<Rightarrow> report \<Rightarrow> GameEvent \<Rightarrow> fault + (Scene \<times> report)" where
  "visit_event scene out arg =
     (if b arg = MAX_ENTITIES then
        (if a arg < length (m_healths scene) then
           (if health (m_healths scene ! a arg) > 0 then
              let healths = (m_healths scene)
                    [a arg := (m_healths scene ! a arg)
                       \<lparr>health := max 0 (health (m_healths scene ! a arg) - 10)\<rparr>]
              in Inr (scene\<lparr>m_healths := healths\<rparr>,
                      out @ [(a arg, health (healths ! a arg))])
            else Inr (scene, out))
         else Inl OutOfRange)
      else Inr (scene, out))"

function DrainAndApply ::
  "Scene \<Rightarrow> EventQueue \<Rightarrow> report \<Rightarrow> fault + (Scene \<times> EventQueue \<times> report)" where
  "DrainAndApply scene evq out =
     (case TryPop evq of
        (None, evq') \<Rightarrow> Inr (scene, evq', out)
      | (Some ev, evq') \<Rightarrow>
          (case visit_event scene out ev of
             Inl f \<Rightarrow> Inl f
           | Inr (scene', out') \<Rightarrow> DrainAndApply scene' evq' out'))"
  by pat_completeness auto
termination
  by (relation "measure (\<lambda>(scene, evq, out). length evq)")
     (auto simp: TryPop_def split: if_splits)

section \<open>The two free-running loops of main\<close>

text \<open>
  \<^verbatim>\<open>main\<close> of \<^verbatim>\<open>Thread/Thread.cpp\<close> starts \<^verbatim>\<open>tPhysics\<close>, which calls
  \<^verbatim>\<open>UpdateParallel\<close> in a loop, and \<^verbatim>\<open>tRender\<close>, which calls \<^verbatim>\<open>CollectParallel\<close> in a
  loop; neither waits for the other. One call of \<^verbatim>\<open>CollectParallel\<close> under such a run is
  modelled at the granularity of its loop iterations: it loads the front index once, and
  before it reads slot \<open>i\<close> the physics thread completes \<open>steps_before i\<close> whole steps on the
  shared scene. Physics steps are taken whole, so every run of this model is a run of the
  two threads; with no step in between it is \<^verbatim>\<open>CollectParallel\<close> itself
  (\<open>CollectParallel_interleaved_no_steps\<close>).
\<close>

fun physics_steps ::
  "(real \<Rightarrow> real \<Rightarrow> real) \<Rightarrow> nat \<Rightarrow> Scene \<times> EventQueue \<Rightarrow> Scene \<times> EventQueue" where
  "physics_steps dadd 0 se = se"
| "physics_steps dadd (Suc n) se = physics_steps dadd n (UpdateParallel dadd (fst se) (snd se))"

definition CollectParallel_interleaved_body ::
  "(real \<Rightarrow> real \<Rightarrow> real) \<Rightarrow> (Entity \<Rightarrow> nat) \<Rightarrow> int \<Rightarrow> Entity
     \<Rightarrow> (Scene \<times> EventQueue) \<times> RenderPacket list \<Rightarrow> (Scene \<times> EventQueue) \<times> RenderPacket list" where
  "CollectParallel_interleaved_body dadd steps_before curFront i st =
     (let se = physics_steps dadd (steps_before i) (fst st)
      in (se, CollectParallel_body (GetTransformsAt (fst se) curFront) (m_renders (fst se))
                (m_entity_active (fst se)) i (snd st)))"

definition CollectParallel_interleaved ::
  "(real \<Rightarrow> real \<Rightarrow> real) \<Rightarrow> (Entity \<Rightarrow> nat) \<Rightarrow> Scene \<Rightarrow> EventQueue \<Rightarrow> RenderPacket list" where
  "CollectParallel_interleaved dadd steps_before scene evq =
     (let curFront = LoadFrontIndex scene
      in snd (fold (CollectParallel_interleaved_body dadd steps_before curFront)
                [0..<MAX_ENTITIES] ((scene, evq), [])))"

section \<open>Auxiliary definitions for the proofs\<close>

text \<open>
  None of the following is program text. \<open>write_entity\<close> is the shape every intermediate
  state of a loop iteration has; \<open>UpdateParallel_entity\<close>, \<open>Update_entity\<close> and
  \<open>Update_entity_01\<close> are the values one iteration of the three loops leaves for its
  entity (position, velocity, events pushed), proved equal to the loop bodies below;
  \<open>loop_result\<close>, \<open>pushed_events\<close> and \<open>step_result\<close> describe a whole pass.
  \<open>queue_op\<close> and \<open>run_ops\<close> are a client that applies any sequence of pushes and
  pops to the queue.
\<close>

datatype queue_op = OpPush GameEvent | OpTryPop

fun run_ops :: "queue_op list \<Rightarrow> EventQueue \<Rightarrow> GameEvent option list \<times> EventQueue" where
  "run_ops [] q = ([], q)"
| "run_ops (OpPush e # ops) q = run_ops ops (Push q e)"
| "run_ops (OpTryPop # ops) q =
     (case TryPop q of (r, q') \<Rightarrow> (case run_ops ops q' of (rs, q'') \<Rightarrow> (r # rs, q'')))"

fun pushed :: "queue_op list \<Rightarrow> GameEvent list" where
  "pushed [] = []"
| "pushed (OpPush e # ops) = e # pushed ops"
| "pushed (OpTryPop # ops) = pushed ops"

fun popped :: "GameEvent option list \<Rightarrow> GameEvent list" where
  "popped [] = []"
| "popped (None # rs) = popped rs"
| "popped (Some e # rs) = e # popped rs"

type_synonym entity_result = "TransformComponent \<times> PhysicsComponent \<times> GameEvent list"

definition write_entity :: "TransformComponent \<Rightarrow> PhysicsComponent \<Rightarrow> GameEvent list \<Rightarrow> Entity \<Rightarrow> PhysicsLocals \<Rightarrow> PhysicsLocals" where
  "write_entity t p evs i st =
     st\<lparr>transforms_back := (transforms_back st)[i := t],
        physics := (physics st)[i := p],
        events := events st @ evs\<rparr>"

definition UpdateParallel_entity ::
  "(real \<Rightarrow> real \<Rightarrow> real) \<Rightarrow> Entity \<Rightarrow> TransformComponent \<Rightarrow> PhysicsComponent \<Rightarrow> entity_result" where
  "UpdateParallel_entity dadd i t p =
     (if vx p \<noteq> 0 \<or> vy p \<noteq> 0 then
        (let nx = dadd (x t) (vx p); ny = dadd (y t) (vy p)
         in (\<lparr>x = (if nx < 0 then 0 else if nx > 79 then 79 else nx),
              y = (if ny < 0 then 0 else if ny > 24 then 24 else ny)\<rparr>,
             \<lparr>vx = (if nx < 0 \<or> nx > 79 then - vx p else vx p),
              vy = (if ny < 0 \<or> ny > 24 then - vy p else vy p)\<rparr>,
             (if nx < 0 \<or> nx > 79 then [CollisionEvent i MAX_ENTITIES] else []) @
             (if ny < 0 \<or> ny > 24 then [CollisionEvent i MAX_ENTITIES] else [])))
      else (t, p, []))"

definition Update_entity_01 ::
  "(real \<Rightarrow> real \<Rightarrow> real) \<Rightarrow> Entity \<Rightarrow> TransformComponent \<Rightarrow> PhysicsComponent \<Rightarrow> entity_result" where
  "Update_entity_01 dadd i t p =
     (if vx p \<noteq> 0 \<or> vy p \<noteq> 0 then
        (let nx = dadd (x t) (vx p); ny = dadd (y t) (vy p)
         in (\<lparr>x = nx, y = ny\<rparr>,
             \<lparr>vx = (if nx < 0 \<or> nx > 79 then - vx p else vx p),
              vy = (if ny < 0 \<or> ny > 24 then - vy p else vy p)\<rparr>,
             (if nx < 0 \<or> nx > 79 then [CollisionEvent i MAX_ENTITIES] else []) @
             (if ny < 0 \<or> ny > 24 then [CollisionEvent i MAX_ENTITIES] else [])))
      else (t, p, []))"

definition Update_entity ::
  "(real \<Rightarrow> real \<Rightarrow> real) \<Rightarrow> Entity \<Rightarrow> TransformComponent \<Rightarrow> PhysicsComponent \<Rightarrow> entity_result" where
  "Update_entity dadd i t p =
     (if vx p \<noteq> 0 \<or> vy p \<noteq> 0 then
        (\<lparr>x = dadd (x t) (vx p), y = dadd (y t) (vy p)\<rparr>, p, [])
      else (t, p, []))"

definition apply_entity ::
  "(Entity \<Rightarrow> TransformComponent \<Rightarrow> PhysicsComponent \<Rightarrow> entity_result)
     \<Rightarrow> TransformComponent list \<Rightarrow> bool list \<Rightarrow> Entity \<Rightarrow> PhysicsLocals \<Rightarrow> PhysicsLocals" where
  "apply_entity g front active i st =
     (if active ! i then
        (case g i (front ! i) (physics st ! i) of
           (t, p, evs) \<Rightarrow> write_entity t p evs i st)
      else st)"

definition loop_result ::
  "(Entity \<Rightarrow> TransformComponent \<Rightarrow> PhysicsComponent \<Rightarrow> entity_result)
     \<Rightarrow> TransformComponent list \<Rightarrow> bool list \<Rightarrow> nat \<Rightarrow> PhysicsLocals \<Rightarrow> PhysicsLocals \<Rightarrow> bool" where
  "loop_result g front active n st0 st \<longleftrightarrow>
     length (transforms_back st) = length (transforms_back st0) \<and>
     length (physics st) = length (physics st0) \<and>
     (\<forall>j. j < n \<and> active ! j \<longrightarrow>
        transforms_back st ! j = fst (g j (front ! j) (physics st0 ! j)) \<and>
        physics st ! j = fst (snd (g j (front ! j) (physics st0 ! j)))) \<and>
     (\<forall>j. n \<le> j \<or> \<not> active ! j \<longrightarrow>
        transforms_back st ! j = transforms_back st0 ! j \<and> physics st ! j = physics st0 ! j) \<and>
     events st = events st0 @
       concat (map (\<lambda>j. if active ! j then snd (snd (g j (front ! j) (physics st0 ! j))) else [])
                 [0..<n])"

definition pushed_events ::
  "(Entity \<Rightarrow> TransformComponent \<Rightarrow> PhysicsComponent \<Rightarrow> entity_result) \<Rightarrow> Scene \<Rightarrow> GameEvent list" where
  "pushed_events g s =
     concat (map (\<lambda>j. if m_entity_active s ! j
                       then snd (snd (g j (GetTransforms_Front s ! j) (m_physics s ! j)))
                       else [])
               [0..<MAX_ENTITIES])"

definition step_result ::
  "(Entity \<Rightarrow> TransformComponent \<Rightarrow> PhysicsComponent \<Rightarrow> entity_result)
     \<Rightarrow> Scene \<Rightarrow> Scene \<Rightarrow> bool" where
  "step_result g s s' \<longleftrightarrow>
     length (m_transforms s') = 2 \<and>
     m_transforms s' ! nat (m_frontBufferIndex s) = GetTransforms_Front s \<and>
     length (m_transforms s' ! nat (1 - m_frontBufferIndex s)) = MAX_ENTITIES \<and>
     length (m_physics s') = MAX_ENTITIES \<and>
     m_renders s' = m_renders s \<and> m_healths s' = m_healths s \<and>
     m_entity_active s' = m_entity_active s \<and>
     (\<forall>j. j < MAX_ENTITIES \<and> m_entity_active s ! j \<longrightarrow>
        m_transforms s' ! nat (1 - m_frontBufferIndex s) ! j =
          fst (g j (GetTransforms_Front s ! j) (m_physics s ! j)) \<and>
        m_physics s' ! j = fst (snd (g j (GetTransforms_Front s ! j) (m_physics s ! j)))) \<and>
     (\<forall>j. \<not> m_entity_active s ! j \<longrightarrow>
        m_transforms s' ! nat (1 - m_frontBufferIndex s) ! j = GetTransforms_Back s ! j \<and>
        m_physics s' ! j = m_physics s ! j)"

text \<open>
  \<open>boundary_events\<close>: the events one iteration pushes for its entity, the same list in
  \<^verbatim>\<open>UpdateParallel\<close> and in the earlier draft's \<^verbatim>\<open>Update\<close>.
\<close>

definition boundary_events ::
  "(real \<Rightarrow> real \<Rightarrow> real) \<Rightarrow> Entity \<Rightarrow> TransformComponent \<Rightarrow> PhysicsComponent \<Rightarrow> GameEvent list" where
  "boundary_events dadd i t p =
     (if vx p \<noteq> 0 \<or> vy p \<noteq> 0 then
        (if dadd (x t) (vx p) < 0 \<or> dadd (x t) (vx p) > 79
         then [CollisionEvent i MAX_ENTITIES] else []) @
        (if dadd (y t) (vy p) < 0 \<or> dadd (y t) (vy p) > 24
         then [CollisionEvent i MAX_ENTITIES] else [])
      else [])"

subsection \<open>Concrete scenes\<close>

text \<open>
  \<open>scene_wall\<close>: entity 0 at (78, 12) moving right with velocity (5, 0), glyph \<open>@\<close>,
  health 5. \<open>scene_spent\<close>: the same with health 0. \<open>scene_created\<close>: the scene right after
  one \<^verbatim>\<open>CreateEntity\<close>, the entity's components still default-initialised.
  \<open>scene_full\<close>: every slot active.
\<close>

definition scene_wall :: Scene where
  "scene_wall =
     \<lparr>m_frontBufferIndex = 0,
      m_transforms = [(replicate MAX_ENTITIES TransformComponent_default)[0 := \<lparr>x = 78, y = 12\<rparr>],
                      replicate MAX_ENTITIES TransformComponent_default],
      m_physics = (replicate MAX_ENTITIES PhysicsComponent_default)[0 := \<lparr>vx = 5, vy = 0\<rparr>],
      m_renders = (replicate MAX_ENTITIES RenderComponent_default)[0 := \<lparr>symbol = CHR ''@''\<rparr>],
      m_healths = (replicate MAX_ENTITIES HealthComponent_default)[0 := \<lparr>health = 5\<rparr>],
      m_entity_active = (replicate MAX_ENTITIES False)[0 := True]\<rparr>"

definition scene_spent :: Scene where
  "scene_spent =
     scene_wall\<lparr>m_healths := (replicate MAX_ENTITIES HealthComponent_default)[0 := \<lparr>health = 0\<rparr>]\<rparr>"

definition scene_created :: Scene where
  "scene_created = Scene_init\<lparr>m_entity_active := (replicate MAX_ENTITIES False)[0 := True]\<rparr>"

definition scene_full :: Scene where
  "scene_full = Scene_init\<lparr>m_entity_active := replicate MAX_ENTITIES True\<rparr>"

text \<open>
  \<open>scene_negative\<close>: \<open>scene_wall\<close> with health -5 for entity 0. \<open>scene_pair\<close>: entities 0 and
  1, both at (40, 12) with velocity (1, 1) and glyph \<open>@\<close>. \<open>two_steps_before_slot_1\<close>: the
  run in which two physics steps complete between the snapshot's reads of slot 0 and of
  slot 1, and none elsewhere.
\<close>

definition scene_negative :: Scene where
  "scene_negative =
     scene_wall\<lparr>m_healths := (replicate MAX_ENTITIES HealthComponent_default)[0 := \<lparr>health = - 5\<rparr>]\<rparr>"

definition scene_pair :: Scene where
  "scene_pair =
     \<lparr>m_frontBufferIndex = 0,
      m_transforms = [(replicate MAX_ENTITIES TransformComponent_default)
                        [0 := \<lparr>x = 40, y = 12\<rparr>, 1 := \<lparr>x = 40, y = 12\<rparr>],
                      replicate MAX_ENTITIES TransformComponent_default],
      m_physics = (replicate MAX_ENTITIES PhysicsComponent_default)
                    [0 := \<lparr>vx = 1, vy = 1\<rparr>, 1 := \<lparr>vx = 1, vy = 1\<rparr>],
      m_renders = (replicate MAX_ENTITIES RenderComponent_default)
                    [0 := \<lparr>symbol = CHR ''@''\<rparr>, 1 := \<lparr>symbol = CHR ''@''\<rparr>],
      m_healths = replicate MAX_ENTITIES HealthComponent_default,
      m_entity_active = (replicate MAX_ENTITIES False)[0 := True, 1 := True]\<rparr>"

definition two_steps_before_slot_1 :: "Entity \<Rightarrow> nat" where
  "two_steps_before_slot_1 i = (if i = 1 then 2 else 0)"

section \<open>Lemmas\<close>

subsection \<open>EventQueue and CreateEntity\<close>

lemma TryPop_Nil: "TryPop [] = (None, [])"
  by (simp add: TryPop_def)

lemma TryPop_Cons: "TryPop (e # q) = (Some e, q)"
  by (simp add: TryPop_def)

lemma run_ops_fifo:
  "popped (fst (run_ops ops q)) @ snd (run_ops ops q) = q @ pushed ops"
proof (induction ops q rule: run_ops.induct)
  case (1 q)
  show ?case by simp
next
  case (2 e ops q)
  then show ?case by (simp add: Push_def)
next
  case (3 ops q)
  show ?case
  proof (cases q)
    case Nil
    with 3 show ?thesis by (auto simp: TryPop_Nil split: prod.splits)
  next
    case (Cons e q')
    with 3 show ?thesis by (auto simp: TryPop_Cons split: prod.splits)
  qed
qed

lemma CreateEntity_loop_skip:
  "i \<le> k \<Longrightarrow> k < MAX_ENTITIES \<Longrightarrow> \<not> m_entity_active s ! k \<Longrightarrow>
   (\<forall>j. i \<le> j \<and> j < k \<longrightarrow> m_entity_active s ! j) \<Longrightarrow>
   CreateEntity_loop i s = (k, s\<lparr>m_entity_active := (m_entity_active s)[k := True]\<rparr>)"
proof (induction i s rule: CreateEntity_loop.induct)
  case (1 i s)
  show ?case
  proof (cases "i = k")
    case True
    with 1 show ?thesis by simp
  next
    case False
    with 1 have "i < k" by simp
    with 1 show ?thesis by simp
  qed
qed

lemma CreateEntity_loop_full:
  "(\<forall>j. i \<le> j \<and> j < MAX_ENTITIES \<longrightarrow> m_entity_active s ! j) \<Longrightarrow>
   CreateEntity_loop i s = (MAX_ENTITIES, s)"
proof (induction i s rule: CreateEntity_loop.induct)
  case (1 i s)
  then show ?case by simp
qed

subsection \<open>DamageSystem: one event, then the whole drain\<close>

lemma MAX_ENTITIES_pos: "0 < MAX_ENTITIES"
  by (simp add: MAX_ENTITIES_def)

lemma DrainAndApply_Nil: "DrainAndApply s [] out = Inr (s, [], out)"
  by (simp add: TryPop_def)

lemma DrainAndApply_Cons:
  "DrainAndApply s (e # q) out =
     (case visit_event s out e of
        Inl f \<Rightarrow> Inl f
      | Inr (s', out') \<Rightarrow> DrainAndApply s' q out')"
  by (subst DrainAndApply.simps) (simp add: TryPop_def)

declare DrainAndApply.simps [simp del]

lemma HealthComponent_update: "(r :: HealthComponent)\<lparr>health := v\<rparr> = \<lparr>health = v\<rparr>"
  by (cases r) simp

lemma visit_event_cases:
  "visit_event s out e =
     (if b e = MAX_ENTITIES then
        (if a e < length (m_healths s) then
           (if 0 < health (m_healths s ! a e) then
              Inr (s\<lparr>m_healths := (m_healths s)
                        [a e := \<lparr>health = max 0 (health (m_healths s ! a e) - 10)\<rparr>]\<rparr>,
                   out @ [(a e, max 0 (health (m_healths s ! a e) - 10))])
            else Inr (s, out))
         else Inl OutOfRange)
      else Inr (s, out))"
  by (simp add: visit_event_def Let_def HealthComponent_update)

lemma visit_event_Inr:
  assumes "b e = MAX_ENTITIES \<longrightarrow> a e < length (m_healths s)"
  shows "\<exists>hs out'. visit_event s out e = Inr (s\<lparr>m_healths := hs\<rparr>, out') \<and>
           length hs = length (m_healths s) \<and>
           (\<forall>i. (b e = MAX_ENTITIES \<longrightarrow> a e \<noteq> i) \<longrightarrow> hs ! i = m_healths s ! i) \<and>
           (\<forall>i. 0 \<le> health (m_healths s ! i) \<longrightarrow> 0 \<le> health (hs ! i)) \<and>
           (\<forall>i. health (hs ! i) \<le> max 0 (health (m_healths s ! i)))"
proof (cases "b e = MAX_ENTITIES \<and> 0 < health (m_healths s ! a e)")
  case True
  with assms have lt: "a e < length (m_healths s)" by simp
  let ?hs = "(m_healths s)[a e := \<lparr>health = max 0 (health (m_healths s ! a e) - 10)\<rparr>]"
  have "visit_event s out e = Inr (s\<lparr>m_healths := ?hs\<rparr>,
          out @ [(a e, max 0 (health (m_healths s ! a e) - 10))])"
    using True lt by (simp add: visit_event_cases)
  moreover have "length ?hs = length (m_healths s)" by simp
  moreover have "\<forall>i. (b e = MAX_ENTITIES \<longrightarrow> a e \<noteq> i) \<longrightarrow> ?hs ! i = m_healths s ! i"
    using True by simp
  moreover have "\<forall>i. 0 \<le> health (m_healths s ! i) \<longrightarrow> 0 \<le> health (?hs ! i)"
    using lt by (simp add: nth_list_update)
  moreover have "\<forall>i. health (?hs ! i) \<le> max 0 (health (m_healths s ! i))"
    using lt True by (simp add: nth_list_update)
  ultimately show ?thesis by blast
next
  case False
  have "visit_event s out e = Inr (s\<lparr>m_healths := m_healths s\<rparr>, out)"
    using False assms by (auto simp: visit_event_cases)
  then show ?thesis by fastforce
qed

lemma DrainAndApply_total:
  "(\<forall>e\<in>set q. b e = MAX_ENTITIES \<longrightarrow> a e < length (m_healths s)) \<Longrightarrow>
   \<exists>hs out'. DrainAndApply s q out = Inr (s\<lparr>m_healths := hs\<rparr>, [], out') \<and>
     length hs = length (m_healths s) \<and>
     (\<forall>i. (\<forall>e\<in>set q. b e = MAX_ENTITIES \<longrightarrow> a e \<noteq> i) \<longrightarrow> hs ! i = m_healths s ! i) \<and>
     (\<forall>i. 0 \<le> health (m_healths s ! i) \<longrightarrow> 0 \<le> health (hs ! i))"
proof (induction q arbitrary: s out)
  case Nil
  have "DrainAndApply s [] out = Inr (s\<lparr>m_healths := m_healths s\<rparr>, [], out)"
    by (simp add: DrainAndApply_Nil)
  then show ?case by fastforce
next
  case (Cons e q)
  from Cons.prems have "b e = MAX_ENTITIES \<longrightarrow> a e < length (m_healths s)" by simp
  from visit_event_Inr [OF this, of out]
  obtain hs1 out1 where
    v: "visit_event s out e = Inr (s\<lparr>m_healths := hs1\<rparr>, out1)" and
    len1: "length hs1 = length (m_healths s)" and
    fr1: "\<forall>i. (b e = MAX_ENTITIES \<longrightarrow> a e \<noteq> i) \<longrightarrow> hs1 ! i = m_healths s ! i" and
    nn1: "\<forall>i. 0 \<le> health (m_healths s ! i) \<longrightarrow> 0 \<le> health (hs1 ! i)"
    by blast
  let ?s1 = "s\<lparr>m_healths := hs1\<rparr>"
  have "\<forall>e\<in>set q. b e = MAX_ENTITIES \<longrightarrow> a e < length (m_healths ?s1)"
    using Cons.prems len1 by simp
  from Cons.IH [OF this, of out1]
  obtain hs2 out2 where
    d: "DrainAndApply ?s1 q out1 = Inr (?s1\<lparr>m_healths := hs2\<rparr>, [], out2)" and
    len2: "length hs2 = length (m_healths ?s1)" and
    fr2: "\<forall>i. (\<forall>e\<in>set q. b e = MAX_ENTITIES \<longrightarrow> a e \<noteq> i) \<longrightarrow> hs2 ! i = m_healths ?s1 ! i" and
    nn2: "\<forall>i. 0 \<le> health (m_healths ?s1 ! i) \<longrightarrow> 0 \<le> health (hs2 ! i)"
    by blast
  have "DrainAndApply s (e # q) out = Inr (s\<lparr>m_healths := hs2\<rparr>, [], out2)"
    using v d by (simp add: DrainAndApply_Cons)
  moreover have "length hs2 = length (m_healths s)" using len1 len2 by simp
  moreover have "\<forall>i. (\<forall>e'\<in>set (e # q). b e' = MAX_ENTITIES \<longrightarrow> a e' \<noteq> i) \<longrightarrow>
      hs2 ! i = m_healths s ! i"
    using fr1 fr2 by simp
  moreover have "\<forall>i. 0 \<le> health (m_healths s ! i) \<longrightarrow> 0 \<le> health (hs2 ! i)"
    using nn1 nn2 by simp
  ultimately show ?case by blast
qed

subsection \<open>The statements of a physics iteration\<close>

text \<open>
  Each statement of an iteration, run on a state of the shape \<open>write_entity t p evs i st\<close>,
  leaves a state of that shape; chaining them gives the three loop bodies in closed form.
\<close>

lemma copy_front_write:
  "copy_front front i st = write_entity (front ! i) (physics st ! i) [] i st"
  by (simp add: copy_front_def write_entity_def)

lemma write_entity_nth:
  assumes "i < length (transforms_back st)" "i < length (physics st)"
  shows "transforms_back (write_entity t p evs i st) ! i = t"
    and "physics (write_entity t p evs i st) ! i = p"
    and "events (write_entity t p evs i st) = events st @ evs"
  using assms by (simp_all add: write_entity_def)

lemma write_entity_tb:
  "write_entity t p evs i st\<lparr>transforms_back := (transforms_back (write_entity t p evs i st))[i := t']\<rparr>
     = write_entity t' p evs i st"
  by (simp add: write_entity_def)

lemma write_entity_step:
  "(write_entity t p evs i st)
     \<lparr>transforms_back := (transforms_back (write_entity t p evs i st))[i := t'],
      physics := (physics (write_entity t p evs i st))[i := p'],
      events := Push (events (write_entity t p evs i st)) e\<rparr>
     = write_entity t' p' (evs @ [e]) i st"
  by (simp add: write_entity_def Push_def)

lemma write_entity_ph:
  "(write_entity t p evs i st)
     \<lparr>physics := (physics (write_entity t p evs i st))[i := p'],
      events := Push (events (write_entity t p evs i st)) e\<rparr>
     = write_entity t p' (evs @ [e]) i st"
  by (simp add: write_entity_def Push_def)

lemma integrate_write:
  assumes "i < length (transforms_back st)" "i < length (physics st)"
  shows "integrate dadd i (write_entity t p evs i st) =
           write_entity \<lparr>x = dadd (x t) (vx p), y = dadd (y t) (vy p)\<rparr> p evs i st"
  using assms by (cases t) (simp add: integrate_def Let_def write_entity_def)

lemma boundary_x_low_write:
  assumes "i < length (transforms_back st)" "i < length (physics st)"
  shows "boundary_x_low i (write_entity t p evs i st) =
           (if x t < 0
            then write_entity (t\<lparr>x := 0\<rparr>) (p\<lparr>vx := - vx p\<rparr>)
                   (evs @ [CollisionEvent i MAX_ENTITIES]) i st
            else write_entity t p evs i st)"
  using assms by (simp add: boundary_x_low_def write_entity_def Push_def)

lemma boundary_x_high_write:
  assumes "i < length (transforms_back st)" "i < length (physics st)"
  shows "boundary_x_high i (write_entity t p evs i st) =
           (if x t > 79
            then write_entity (t\<lparr>x := 79\<rparr>) (p\<lparr>vx := - vx p\<rparr>)
                   (evs @ [CollisionEvent i MAX_ENTITIES]) i st
            else write_entity t p evs i st)"
  using assms by (simp add: boundary_x_high_def write_entity_def Push_def)

lemma boundary_y_low_write:
  assumes "i < length (transforms_back st)" "i < length (physics st)"
  shows "boundary_y_low i (write_entity t p evs i st) =
           (if y t < 0
            then write_entity (t\<lparr>y := 0\<rparr>) (p\<lparr>vy := - vy p\<rparr>)
                   (evs @ [CollisionEvent i MAX_ENTITIES]) i st
            else write_entity t p evs i st)"
  using assms by (simp add: boundary_y_low_def write_entity_def Push_def)

lemma boundary_y_high_write:
  assumes "i < length (transforms_back st)" "i < length (physics st)"
  shows "boundary_y_high i (write_entity t p evs i st) =
           (if y t > 24
            then write_entity (t\<lparr>y := 24\<rparr>) (p\<lparr>vy := - vy p\<rparr>)
                   (evs @ [CollisionEvent i MAX_ENTITIES]) i st
            else write_entity t p evs i st)"
  using assms by (simp add: boundary_y_high_def write_entity_def Push_def)

lemma boundary_x_01_write:
  assumes "i < length (transforms_back st)" "i < length (physics st)"
  shows "boundary_x_01 i (write_entity t p evs i st) =
           (if x t < 0 \<or> x t > 79
            then write_entity t (p\<lparr>vx := - vx p\<rparr>)
                   (evs @ [CollisionEvent i MAX_ENTITIES]) i st
            else write_entity t p evs i st)"
  using assms by (simp add: boundary_x_01_def write_entity_def Push_def)

lemma boundary_y_01_write:
  assumes "i < length (transforms_back st)" "i < length (physics st)"
  shows "boundary_y_01 i (write_entity t p evs i st) =
           (if y t < 0 \<or> y t > 24
            then write_entity t (p\<lparr>vy := - vy p\<rparr>)
                   (evs @ [CollisionEvent i MAX_ENTITIES]) i st
            else write_entity t p evs i st)"
  using assms by (simp add: boundary_y_01_def write_entity_def Push_def)

lemma UpdateParallel_body_closed:
  assumes "i < length (transforms_back st)" "i < length (physics st)"
  shows "UpdateParallel_body dadd front active i st =
           apply_entity (UpdateParallel_entity dadd) front active i st"
proof (cases "active ! i")
  case False
  then show ?thesis by (simp add: UpdateParallel_body_def apply_entity_def)
next
  case True
  obtain pvx pvy where p: "physics st ! i = \<lparr>vx = pvx, vy = pvy\<rparr>"
    by (cases "physics st ! i") simp
  obtain tx ty where t: "front ! i = \<lparr>x = tx, y = ty\<rparr>"
    by (cases "front ! i") simp
  show ?thesis
  proof (cases "pvx \<noteq> 0 \<or> pvy \<noteq> 0")
    case False
    then show ?thesis
      using True assms
      by (simp add: UpdateParallel_body_def apply_entity_def copy_front_write Let_def
            write_entity_nth UpdateParallel_entity_def p)
  next
    case nz: True
    have "UpdateParallel_body dadd front active i st =
            boundary_y_high i (boundary_y_low i (boundary_x_high i (boundary_x_low i
              (write_entity \<lparr>x = dadd tx pvx, y = dadd ty pvy\<rparr> \<lparr>vx = pvx, vy = pvy\<rparr> [] i st))))"
      using True nz assms
      by (simp add: UpdateParallel_body_def copy_front_write Let_def write_entity_nth
            integrate_write p t)
    also have "\<dots> = (case UpdateParallel_entity dadd i \<lparr>x = tx, y = ty\<rparr> \<lparr>vx = pvx, vy = pvy\<rparr> of
           (t, p, evs) \<Rightarrow> write_entity t p evs i st)"
      using nz assms
      by (simp add: boundary_x_low_write boundary_x_high_write boundary_y_low_write
            boundary_y_high_write UpdateParallel_entity_def Let_def)
    finally show ?thesis using True by (simp add: apply_entity_def p t)
  qed
qed

lemma Update_body_closed:
  assumes "i < length (transforms_back st)" "i < length (physics st)"
  shows "Update_body dadd front active i st = apply_entity (Update_entity dadd) front active i st"
proof -
  obtain pvx pvy where p: "physics st ! i = \<lparr>vx = pvx, vy = pvy\<rparr>"
    by (cases "physics st ! i") simp
  obtain tx ty where t: "front ! i = \<lparr>x = tx, y = ty\<rparr>"
    by (cases "front ! i") simp
  show ?thesis
    using assms
    by (simp add: Update_body_def apply_entity_def copy_front_write Let_def write_entity_nth
          integrate_write Update_entity_def p t)
qed

lemma Update_body_01_closed:
  assumes "i < length (transforms_back st)" "i < length (physics st)"
  shows "Update_body_01 dadd front active i st =
           apply_entity (Update_entity_01 dadd) front active i st"
proof -
  obtain pvx pvy where p: "physics st ! i = \<lparr>vx = pvx, vy = pvy\<rparr>"
    by (cases "physics st ! i") simp
  obtain tx ty where t: "front ! i = \<lparr>x = tx, y = ty\<rparr>"
    by (cases "front ! i") simp
  show ?thesis
    using assms
    by (simp add: Update_body_01_def apply_entity_def copy_front_write Let_def write_entity_nth
          integrate_write boundary_x_01_write boundary_y_01_write Update_entity_01_def p t)
qed

subsection \<open>The loop over all entities\<close>

text \<open>
  Iteration \<open>n\<close> touches slot \<open>n\<close> only, so after the pass each active slot holds what its
  own iteration computed from the values the pass started with.
\<close>

lemma loop_result_0: "loop_result g front active 0 st0 st0"
  by (simp add: loop_result_def)

lemma loop_result_Suc:
  assumes r: "loop_result g front active n st0 st"
    and n: "n < length (transforms_back st0)" "n < length (physics st0)"
  shows "loop_result g front active (Suc n) st0 (apply_entity g front active n st)"
proof (cases "active ! n")
  case False
  then have "apply_entity g front active n st = st" by (simp add: apply_entity_def)
  moreover have "loop_result g front active (Suc n) st0 st"
    using r False unfolding loop_result_def
    by (auto simp: less_Suc_eq)
  ultimately show ?thesis by simp
next
  case True
  from r have same: "physics st ! n = physics st0 ! n"
    and len: "length (transforms_back st) = length (transforms_back st0)"
             "length (physics st) = length (physics st0)"
    by (simp_all add: loop_result_def)
  obtain t p evs where g: "g n (front ! n) (physics st0 ! n) = (t, p, evs)"
    by (cases "g n (front ! n) (physics st0 ! n)") auto
  have ap: "apply_entity g front active n st = write_entity t p evs n st"
    using True same g by (simp add: apply_entity_def)
  have "loop_result g front active (Suc n) st0 (write_entity t p evs n st)"
    unfolding loop_result_def
  proof (intro conjI allI impI)
    show "length (transforms_back (write_entity t p evs n st)) = length (transforms_back st0)"
      using len by (simp add: write_entity_def)
    show "length (physics (write_entity t p evs n st)) = length (physics st0)"
      using len by (simp add: write_entity_def)
  next
    fix j assume j: "j < Suc n \<and> active ! j"
    show "transforms_back (write_entity t p evs n st) ! j = fst (g j (front ! j) (physics st0 ! j))"
    proof (cases "j = n")
      case True
      then show ?thesis using n len g by (simp add: write_entity_def)
    next
      case False
      with j have "j < n \<and> active ! j" by simp
      with r have "transforms_back st ! j = fst (g j (front ! j) (physics st0 ! j))"
        by (simp add: loop_result_def)
      with False show ?thesis by (simp add: write_entity_def)
    qed
    show "physics (write_entity t p evs n st) ! j = fst (snd (g j (front ! j) (physics st0 ! j)))"
    proof (cases "j = n")
      case True
      then show ?thesis using n len g by (simp add: write_entity_def)
    next
      case False
      with j have "j < n \<and> active ! j" by simp
      with r have "physics st ! j = fst (snd (g j (front ! j) (physics st0 ! j)))"
        by (simp add: loop_result_def)
      with False show ?thesis by (simp add: write_entity_def)
    qed
  next
    fix j assume j: "Suc n \<le> j \<or> \<not> active ! j"
    with True have ne: "j \<noteq> n" by auto
    from j have "n \<le> j \<or> \<not> active ! j" by auto
    with r have "transforms_back st ! j = transforms_back st0 ! j \<and> physics st ! j = physics st0 ! j"
      unfolding loop_result_def by blast
    with ne show "transforms_back (write_entity t p evs n st) ! j = transforms_back st0 ! j"
      and "physics (write_entity t p evs n st) ! j = physics st0 ! j"
      by (simp_all add: write_entity_def)
  next
    from r have "events st = events st0 @
       concat (map (\<lambda>j. if active ! j then snd (snd (g j (front ! j) (physics st0 ! j))) else [])
                 [0..<n])"
      by (simp add: loop_result_def)
    then show "events (write_entity t p evs n st) = events st0 @
       concat (map (\<lambda>j. if active ! j then snd (snd (g j (front ! j) (physics st0 ! j))) else [])
                 [0..<Suc n])"
      using True g by (simp add: write_entity_def)
  qed
  with ap show ?thesis by simp
qed

lemma fold_loop_result:
  assumes B: "\<And>i st. i < length (transforms_back st) \<Longrightarrow> i < length (physics st) \<Longrightarrow>
                 B i st = apply_entity g front active i st"
    and n: "n \<le> length (transforms_back st0)" "n \<le> length (physics st0)"
  shows "loop_result g front active n st0 (fold B [0..<n] st0)"
  using n
proof (induction n)
  case 0
  show ?case by (simp add: loop_result_0)
next
  case (Suc n)
  let ?st = "fold B [0..<n] st0"
  from Suc have r: "loop_result g front active n st0 ?st" by simp
  then have "n < length (transforms_back ?st)" "n < length (physics ?st)"
    using Suc.prems by (simp_all add: loop_result_def)
  then have "B n ?st = apply_entity g front active n ?st" by (rule B)
  moreover have "loop_result g front active (Suc n) st0 (apply_entity g front active n ?st)"
    using r Suc.prems by (intro loop_result_Suc) simp_all
  ultimately show ?case by simp
qed

lemma wf_scene_front:
  assumes "wf_scene s"
  shows "nat (m_frontBufferIndex s) < 2" "nat (1 - m_frontBufferIndex s) < 2"
    "nat (1 - m_frontBufferIndex s) \<noteq> nat (m_frontBufferIndex s)"
    "length (GetTransforms_Front s) = MAX_ENTITIES"
    "length (GetTransforms_Back s) = MAX_ENTITIES"
  using assms by (auto simp: wf_scene_def GetTransforms_Front_def GetTransforms_Back_def)

lemma loop_step_result:
  assumes wf: "wf_scene s"
    and r: "loop_result g (GetTransforms_Front s) (m_entity_active s) MAX_ENTITIES
              \<lparr>transforms_back = GetTransforms_Back s, physics = m_physics s, events = q\<rparr> st"
    and upd: "m_transforms s' = (m_transforms s)[nat (1 - m_frontBufferIndex s) := transforms_back st]"
            "m_physics s' = physics st" "m_renders s' = m_renders s" "m_healths s' = m_healths s"
            "m_entity_active s' = m_entity_active s"
  shows "step_result g s s' \<and> events st = q @ pushed_events g s"
proof -
  note f = wf_scene_front [OF wf]
  have len2: "length (m_transforms s) = 2" using wf by (simp add: wf_scene_def)
  have bk: "m_transforms s' ! nat (1 - m_frontBufferIndex s) = transforms_back st"
    using upd(1) f(2) len2 by simp
  have fr: "m_transforms s' ! nat (m_frontBufferIndex s) = GetTransforms_Front s"
    using upd(1) f(3) by (simp add: GetTransforms_Front_def)
  have lens: "length (transforms_back st) = MAX_ENTITIES" "length (physics st) = MAX_ENTITIES"
    using r f(5) wf by (simp_all add: loop_result_def wf_scene_def)
  have act: "\<forall>j. j < MAX_ENTITIES \<and> m_entity_active s ! j \<longrightarrow>
        transforms_back st ! j = fst (g j (GetTransforms_Front s ! j) (m_physics s ! j)) \<and>
        physics st ! j = fst (snd (g j (GetTransforms_Front s ! j) (m_physics s ! j)))"
    using r by (simp add: loop_result_def)
  have inact: "\<forall>j. \<not> m_entity_active s ! j \<longrightarrow>
        transforms_back st ! j = GetTransforms_Back s ! j \<and> physics st ! j = m_physics s ! j"
    using r by (simp add: loop_result_def)
  have ev: "events st = q @ pushed_events g s"
    using r by (simp add: loop_result_def pushed_events_def cong: if_cong)
  show ?thesis
    unfolding step_result_def
    using len2 bk fr lens act inact ev upd by simp
qed

lemma UpdateParallel_step:
  assumes wf: "wf_scene s"
  shows "step_result (UpdateParallel_entity dadd) s (fst (UpdateParallel dadd s q)) \<and>
         snd (UpdateParallel dadd s q) = q @ pushed_events (UpdateParallel_entity dadd) s \<and>
         m_frontBufferIndex (fst (UpdateParallel dadd s q)) = 1 - m_frontBufferIndex s"
proof -
  let ?init = "\<lparr>transforms_back = GetTransforms_Back s, physics = m_physics s, events = q\<rparr>"
  let ?st = "fold (UpdateParallel_body dadd (GetTransforms_Front s) (m_entity_active s))
               [0..<MAX_ENTITIES] ?init"
  note f = wf_scene_front [OF wf]
  have r: "loop_result (UpdateParallel_entity dadd) (GetTransforms_Front s) (m_entity_active s)
             MAX_ENTITIES ?init ?st"
    by (rule fold_loop_result [OF UpdateParallel_body_closed]) (use f wf in \<open>simp_all add: wf_scene_def\<close>)
  have eq: "UpdateParallel dadd s q =
          (s\<lparr>m_transforms := (m_transforms s)[nat (1 - m_frontBufferIndex s) := transforms_back ?st],
             m_physics := physics ?st, m_frontBufferIndex := 1 - m_frontBufferIndex s\<rparr>, events ?st)"
    by (simp add: UpdateParallel_def Let_def LoadFrontIndex_def StoreFrontIndex_def
          GetTransformsAt_def GetTransforms_Front_def GetTransforms_Back_def)
  show ?thesis
    using loop_step_result [OF wf r, of "fst (UpdateParallel dadd s q)"]
    by (simp add: eq)
qed

lemma Update_step:
  assumes wf: "wf_scene s"
  shows "step_result (Update_entity dadd) s (fst (Update dadd s q)) \<and>
         snd (Update dadd s q) = q @ pushed_events (Update_entity dadd) s \<and>
         m_frontBufferIndex (fst (Update dadd s q)) = 1 - m_frontBufferIndex s"
proof -
  let ?init = "\<lparr>transforms_back = GetTransforms_Back s, physics = m_physics s, events = q\<rparr>"
  let ?st = "fold (Update_body dadd (GetTransforms_Front s) (m_entity_active s))
               [0..<MAX_ENTITIES] ?init"
  note f = wf_scene_front [OF wf]
  have r: "loop_result (Update_entity dadd) (GetTransforms_Front s) (m_entity_active s)
             MAX_ENTITIES ?init ?st"
    by (rule fold_loop_result [OF Update_body_closed]) (use f wf in \<open>simp_all add: wf_scene_def\<close>)
  have eq: "Update dadd s q =
          (s\<lparr>m_transforms := (m_transforms s)[nat (1 - m_frontBufferIndex s) := transforms_back ?st],
             m_physics := physics ?st, m_frontBufferIndex := 1 - m_frontBufferIndex s\<rparr>, events ?st)"
    by (simp add: Update_def Let_def SwapTransformBuffers_def)
  show ?thesis
    using loop_step_result [OF wf r, of "fst (Update dadd s q)"]
    by (simp add: eq)
qed

lemma Update_01_step:
  assumes wf: "wf_scene s"
  shows "step_result (Update_entity_01 dadd) s (fst (Update_01 dadd s q)) \<and>
         snd (Update_01 dadd s q) = q @ pushed_events (Update_entity_01 dadd) s \<and>
         m_frontBufferIndex (fst (Update_01 dadd s q)) = m_frontBufferIndex s"
proof -
  let ?init = "\<lparr>transforms_back = GetTransforms_Back s, physics = m_physics s, events = q\<rparr>"
  let ?st = "fold (Update_body_01 dadd (GetTransforms_Front s) (m_entity_active s))
               [0..<MAX_ENTITIES] ?init"
  note f = wf_scene_front [OF wf]
  have r: "loop_result (Update_entity_01 dadd) (GetTransforms_Front s) (m_entity_active s)
             MAX_ENTITIES ?init ?st"
    by (rule fold_loop_result [OF Update_body_01_closed]) (use f wf in \<open>simp_all add: wf_scene_def\<close>)
  have eq: "Update_01 dadd s q =
          (s\<lparr>m_transforms := (m_transforms s)[nat (1 - m_frontBufferIndex s) := transforms_back ?st],
             m_physics := physics ?st\<rparr>, events ?st)"
    by (simp add: Update_01_def Let_def)
  show ?thesis
    using loop_step_result [OF wf r, of "fst (Update_01 dadd s q)"]
    by (simp add: eq)
qed

subsection \<open>The concrete scenes\<close>

lemma wf_scene_Scene_init: "wf_scene Scene_init"
  by (simp add: wf_scene_def Scene_init_def)

lemma wf_scene_scene_wall: "wf_scene scene_wall"
  by (simp add: wf_scene_def scene_wall_def)

lemma wf_scene_scene_spent: "wf_scene scene_spent"
  by (simp add: wf_scene_def scene_spent_def scene_wall_def)

lemma wf_scene_scene_created: "wf_scene scene_created"
  by (simp add: wf_scene_def scene_created_def Scene_init_def)

lemma wf_scene_scene_full: "wf_scene scene_full"
  by (simp add: wf_scene_def scene_full_def Scene_init_def)

subsection \<open>A drain never makes a health negative\<close>

lemma visit_event_nonneg:
  assumes "visit_event s out e = Inr (s', out')"
  shows "0 \<le> health (m_healths s ! i) \<longrightarrow> 0 \<le> health (m_healths s' ! i)"
  using assms
  by (auto simp: visit_event_cases nth_list_update split: if_splits)

lemma DrainAndApply_nonneg:
  "DrainAndApply s q out = Inr (s', q', out') \<Longrightarrow>
   0 \<le> health (m_healths s ! i) \<Longrightarrow> 0 \<le> health (m_healths s' ! i)"
proof (induction q arbitrary: s out)
  case Nil
  then show ?case by (simp add: DrainAndApply_Nil)
next
  case (Cons e q)
  show ?case
  proof (cases "visit_event s out e")
    case (Inl f)
    with Cons.prems show ?thesis by (simp add: DrainAndApply_Cons)
  next
    case (Inr r)
    obtain s1 out1 where r: "r = (s1, out1)" by (cases r)
    with Inr Cons.prems have d: "DrainAndApply s1 q out1 = Inr (s', q', out')"
      by (simp add: DrainAndApply_Cons)
    from Inr r have "visit_event s out e = Inr (s1, out1)" by simp
    from visit_event_nonneg [OF this, of i] Cons.prems(2)
    have "0 \<le> health (m_healths s1 ! i)" by simp
    with d show ?thesis by (rule Cons.IH)
  qed
qed

lemma scene_wall_hit: 
  "scene_wall\<lparr>m_healths := (m_healths scene_wall)[0 := \<lparr>health = max 0 (5 - 10)\<rparr>]\<rparr> = scene_spent"
  by (simp add: scene_wall_def scene_spent_def)

subsection \<open>The events a physics step pushes\<close>

lemma filter_concat_upt:
  assumes "\<And>j. \<forall>e\<in>set (f j). a e = j"
  shows "filter (\<lambda>e. a e = i) (concat (map f [0..<n])) = (if i < n then f i else [])"
proof (induction n)
  case 0
  show ?case by simp
next
  case (Suc n)
  have own: "filter (\<lambda>e. a e = n) (f n) = f n"
    using assms [of n] by (simp add: filter_id_conv)
  have other: "i \<noteq> n \<Longrightarrow> filter (\<lambda>e. a e = i) (f n) = []"
    using assms [of n] by (auto simp: filter_empty_conv)
  show ?case
  proof (cases "i = n")
    case True
    with Suc own show ?thesis by simp
  next
    case False
    with Suc other show ?thesis by (simp add: less_Suc_eq)
  qed
qed

lemma concat_map_upt_first:
  assumes "0 < n" and "\<And>j. 0 < j \<Longrightarrow> j < n \<Longrightarrow> f j = []"
  shows "concat (map f [0..<n]) = f 0"
proof -
  have "[0..<n] = 0 # [Suc 0..<n]" using assms(1) by (simp add: upt_conv_Cons)
  moreover have "concat (map f [Suc 0..<n]) = []"
    using assms(2) by simp
  ultimately show ?thesis by simp
qed

lemma filter_upt_first:
  assumes "0 < n" and "P 0" and "\<And>j. 0 < j \<Longrightarrow> j < n \<Longrightarrow> \<not> P j"
  shows "filter P [0..<n] = [0]"
proof -
  have "[0..<n] = 0 # [Suc 0..<n]" using assms(1) by (simp add: upt_conv_Cons)
  moreover have "filter P [Suc 0..<n] = []"
    using assms(3) by (simp add: filter_empty_conv)
  ultimately show ?thesis using assms(2) by simp
qed

lemma UpdateParallel_entity_events:
  "snd (snd (UpdateParallel_entity dadd i t p)) = boundary_events dadd i t p"
  by (simp add: UpdateParallel_entity_def boundary_events_def Let_def)

lemma Update_entity_01_events:
  "snd (snd (Update_entity_01 dadd i t p)) = boundary_events dadd i t p"
  by (simp add: Update_entity_01_def boundary_events_def Let_def)

lemma boundary_events_owner: "\<forall>e\<in>set (boundary_events dadd i t p). a e = i"
  by (auto simp: boundary_events_def)

lemma boundary_events_replicate:
  "boundary_events dadd i t p =
     replicate
       (if vx p \<noteq> 0 \<or> vy p \<noteq> 0
        then (if dadd (x t) (vx p) < 0 \<or> dadd (x t) (vx p) > 79 then 1 else 0) +
             (if dadd (y t) (vy p) < 0 \<or> dadd (y t) (vy p) > 24 then 1 else 0)
        else 0)
       (CollisionEvent i MAX_ENTITIES)"
  by (simp add: boundary_events_def)

lemma pushed_events_filter:
  assumes "\<And>i t p. snd (snd (g i t p)) = boundary_events dadd i t p"
  shows "filter (\<lambda>e. a e = i) (pushed_events g s) =
           (if i < MAX_ENTITIES \<and> m_entity_active s ! i
            then boundary_events dadd i (GetTransforms_Front s ! i) (m_physics s ! i)
            else [])"
proof -
  let ?f = "\<lambda>j. if m_entity_active s ! j
                 then boundary_events dadd j (GetTransforms_Front s ! j) (m_physics s ! j)
                 else []"
  have eq: "pushed_events g s = concat (map ?f [0..<MAX_ENTITIES])"
    by (simp add: pushed_events_def assms cong: if_cong)
  have "\<And>j. \<forall>e\<in>set (?f j). a e = j"
    using boundary_events_owner by auto
  from filter_concat_upt [of ?f i MAX_ENTITIES, OF this]
  show ?thesis by (simp add: eq)
qed

lemma pushed_events_set:
  assumes "\<And>i t p. snd (snd (g i t p)) = boundary_events dadd i t p"
    and "e \<in> set (pushed_events g s)"
  shows "b e = MAX_ENTITIES \<and> a e < MAX_ENTITIES \<and> m_entity_active s ! a e \<and>
         (vx (m_physics s ! a e) \<noteq> 0 \<or> vy (m_physics s ! a e) \<noteq> 0)"
proof -
  from assms obtain j where j: "j < MAX_ENTITIES" "m_entity_active s ! j"
    "e \<in> set (boundary_events dadd j (GetTransforms_Front s ! j) (m_physics s ! j))"
    by (auto simp: pushed_events_def cong: if_cong split: if_splits)
  then have e: "e = CollisionEvent j MAX_ENTITIES"
    and nz: "vx (m_physics s ! j) \<noteq> 0 \<or> vy (m_physics s ! j) \<noteq> 0"
    by (auto simp: boundary_events_def split: if_splits)
  with j show ?thesis by simp
qed

subsection \<open>The three physics steps\<close>

lemma step_result_entity:
  assumes "step_result g s s'" "i < MAX_ENTITIES" "m_entity_active s ! i"
  shows "m_transforms s' ! nat (1 - m_frontBufferIndex s) ! i =
           fst (g i (GetTransforms_Front s ! i) (m_physics s ! i))"
    and "m_physics s' ! i = fst (snd (g i (GetTransforms_Front s ! i) (m_physics s ! i)))"
  using assms by (simp_all add: step_result_def)

lemma step_result_wf:
  assumes "wf_scene s" "step_result g s s'"
    "m_frontBufferIndex s' = 0 \<or> m_frontBufferIndex s' = 1"
  shows "wf_scene s'"
proof -
  from assms(1) have f: "m_frontBufferIndex s = 0 \<or> m_frontBufferIndex s = 1"
    by (simp add: wf_scene_def)
  have fr: "length (m_transforms s' ! nat (m_frontBufferIndex s)) = MAX_ENTITIES"
    using assms(2) wf_scene_front(4) [OF assms(1)] by (simp add: step_result_def)
  have bk: "length (m_transforms s' ! nat (1 - m_frontBufferIndex s)) = MAX_ENTITIES"
    using assms(2) by (simp add: step_result_def)
  from f fr bk have "length (m_transforms s' ! 0) = MAX_ENTITIES \<and>
      length (m_transforms s' ! 1) = MAX_ENTITIES"
    by auto
  then show ?thesis
    using assms unfolding wf_scene_def step_result_def by simp
qed

lemma UpdateParallel_front:
  assumes "wf_scene s"
  shows "GetTransforms_Front (fst (UpdateParallel dadd s q)) =
           m_transforms (fst (UpdateParallel dadd s q)) ! nat (1 - m_frontBufferIndex s)"
    and "GetTransforms_Back (fst (UpdateParallel dadd s q)) = GetTransforms_Front s"
    and "wf_scene (fst (UpdateParallel dadd s q))"
proof -
  note st = UpdateParallel_step [OF assms, of dadd q]
  from st show "GetTransforms_Front (fst (UpdateParallel dadd s q)) =
           m_transforms (fst (UpdateParallel dadd s q)) ! nat (1 - m_frontBufferIndex s)"
    by (simp add: GetTransforms_Front_def)
  from st show "GetTransforms_Back (fst (UpdateParallel dadd s q)) = GetTransforms_Front s"
    by (simp add: GetTransforms_Back_def step_result_def)
  from assms have "m_frontBufferIndex s = 0 \<or> m_frontBufferIndex s = 1"
    by (simp add: wf_scene_def)
  with st have "m_frontBufferIndex (fst (UpdateParallel dadd s q)) = 0 \<or>
                m_frontBufferIndex (fst (UpdateParallel dadd s q)) = 1"
    by auto
  with st assms show "wf_scene (fst (UpdateParallel dadd s q))"
    by (blast intro: step_result_wf)
qed

text \<open>
  The boundary policy of \<^verbatim>\<open>PhysicsSystem::UpdateParallel\<close>: for an active entity with
  nonzero velocity, each coordinate after the step is the integrated coordinate clamped to
  its range, a velocity component is negated exactly when its coordinate left the range,
  and the step pushes one event for the entity per axis that left its range.
\<close>

lemma UpdateParallel_boundary:
  assumes "wf_scene s" "i < MAX_ENTITIES" "m_entity_active s ! i"
    and "vx (m_physics s ! i) \<noteq> 0 \<or> vy (m_physics s ! i) \<noteq> 0"
  shows "let nx = dadd (x (GetTransforms_Front s ! i)) (vx (m_physics s ! i));
             ny = dadd (y (GetTransforms_Front s ! i)) (vy (m_physics s ! i));
             s' = fst (UpdateParallel dadd s q);
             new = drop (length q) (snd (UpdateParallel dadd s q))
         in x (GetTransforms_Front s' ! i) = (if nx < 0 then 0 else if nx > 79 then 79 else nx) \<and>
            y (GetTransforms_Front s' ! i) = (if ny < 0 then 0 else if ny > 24 then 24 else ny) \<and>
            vx (m_physics s' ! i) =
              (if nx < 0 \<or> nx > 79 then - vx (m_physics s ! i) else vx (m_physics s ! i)) \<and>
            vy (m_physics s' ! i) =
              (if ny < 0 \<or> ny > 24 then - vy (m_physics s ! i) else vy (m_physics s ! i)) \<and>
            filter (\<lambda>e. a e = i) new =
              replicate ((if nx < 0 \<or> nx > 79 then 1 else 0) + (if ny < 0 \<or> ny > 24 then 1 else 0))
                (CollisionEvent i MAX_ENTITIES)"
proof -
  note st = UpdateParallel_step [OF assms(1), of dadd q]
  from st have sr: "step_result (UpdateParallel_entity dadd) s (fst (UpdateParallel dadd s q))"
    by simp
  have t: "GetTransforms_Front (fst (UpdateParallel dadd s q)) ! i =
             fst (UpdateParallel_entity dadd i (GetTransforms_Front s ! i) (m_physics s ! i))"
    using step_result_entity(1) [OF sr assms(2,3)] UpdateParallel_front(1) [OF assms(1)]
    by simp
  have p: "m_physics (fst (UpdateParallel dadd s q)) ! i =
             fst (snd (UpdateParallel_entity dadd i (GetTransforms_Front s ! i) (m_physics s ! i)))"
    by (rule step_result_entity(2) [OF sr assms(2,3)])
  have ev: "filter (\<lambda>e. a e = i) (drop (length q) (snd (UpdateParallel dadd s q))) =
              boundary_events dadd i (GetTransforms_Front s ! i) (m_physics s ! i)"
    using st assms(2,3)
      pushed_events_filter [of "UpdateParallel_entity dadd" dadd i s,
        OF UpdateParallel_entity_events]
    by simp
  show ?thesis
    unfolding Let_def t p ev
    using assms(4)
    by (simp add: UpdateParallel_entity_def Let_def boundary_events_replicate)
qed

lemma scene_created_facts:
  "GetTransforms_Front scene_created ! 0 = \<lparr>x = 0, y = 0\<rparr>"
  "m_physics scene_created ! 0 = \<lparr>vx = 0, vy = 0\<rparr>"
  "m_renders scene_created ! 0 = \<lparr>symbol = CHR 0x00\<rparr>"
  "m_entity_active scene_created ! 0"
  "m_frontBufferIndex scene_created = 0"
  "0 < j \<Longrightarrow> j < MAX_ENTITIES \<Longrightarrow> \<not> m_entity_active scene_created ! j"
  by (simp_all add: scene_created_def Scene_init_def GetTransforms_Front_def MAX_ENTITIES_def
        TransformComponent_default_def PhysicsComponent_default_def RenderComponent_default_def)

lemma scene_wall_facts:
  "GetTransforms_Front scene_wall ! 0 = \<lparr>x = 78, y = 12\<rparr>"
  "m_physics scene_wall ! 0 = \<lparr>vx = 5, vy = 0\<rparr>"
  "m_renders scene_wall ! 0 = \<lparr>symbol = CHR ''@''\<rparr>"
  "m_entity_active scene_wall ! 0"
  "m_frontBufferIndex scene_wall = 0"
  "0 < j \<Longrightarrow> j < MAX_ENTITIES \<Longrightarrow> \<not> m_entity_active scene_wall ! j"
  by (simp_all add: scene_wall_def GetTransforms_Front_def MAX_ENTITIES_def)

lemma pushed_events_props:
  assumes g: "\<And>i t p. snd (snd (g i t p)) = boundary_events dadd i t p"
    and q': "q' = q @ pushed_events g s"
  shows "take (length q) q' = q \<and>
         (\<forall>e\<in>set (drop (length q) q').
            b e = MAX_ENTITIES \<and> a e < MAX_ENTITIES \<and> m_entity_active s ! a e \<and>
            (vx (m_physics s ! a e) \<noteq> 0 \<or> vy (m_physics s ! a e) \<noteq> 0)) \<and>
         (\<forall>i. filter (\<lambda>e. a e = i) (drop (length q) q') =
            replicate
              (if i < MAX_ENTITIES \<and> m_entity_active s ! i \<and>
                  (vx (m_physics s ! i) \<noteq> 0 \<or> vy (m_physics s ! i) \<noteq> 0)
               then (if dadd (x (GetTransforms_Front s ! i)) (vx (m_physics s ! i)) < 0 \<or>
                        dadd (x (GetTransforms_Front s ! i)) (vx (m_physics s ! i)) > 79
                     then 1 else 0) +
                    (if dadd (y (GetTransforms_Front s ! i)) (vy (m_physics s ! i)) < 0 \<or>
                        dadd (y (GetTransforms_Front s ! i)) (vy (m_physics s ! i)) > 24
                     then 1 else 0)
               else 0)
              (CollisionEvent i MAX_ENTITIES)) \<and>
         (\<forall>i. length (filter (\<lambda>e. a e = i) (drop (length q) q')) \<le> 2)"
proof -
  have d: "drop (length q) q' = pushed_events g s" and t: "take (length q) q' = q"
    using q' by simp_all
  have mem: "\<forall>e\<in>set (pushed_events g s).
            b e = MAX_ENTITIES \<and> a e < MAX_ENTITIES \<and> m_entity_active s ! a e \<and>
            (vx (m_physics s ! a e) \<noteq> 0 \<or> vy (m_physics s ! a e) \<noteq> 0)"
    using pushed_events_set [of g dadd _ s, OF g] by blast
  have cnt: "\<forall>i. filter (\<lambda>e. a e = i) (pushed_events g s) =
            replicate
              (if i < MAX_ENTITIES \<and> m_entity_active s ! i \<and>
                  (vx (m_physics s ! i) \<noteq> 0 \<or> vy (m_physics s ! i) \<noteq> 0)
               then (if dadd (x (GetTransforms_Front s ! i)) (vx (m_physics s ! i)) < 0 \<or>
                        dadd (x (GetTransforms_Front s ! i)) (vx (m_physics s ! i)) > 79
                     then 1 else 0) +
                    (if dadd (y (GetTransforms_Front s ! i)) (vy (m_physics s ! i)) < 0 \<or>
                        dadd (y (GetTransforms_Front s ! i)) (vy (m_physics s ! i)) > 24
                     then 1 else 0)
               else 0)
              (CollisionEvent i MAX_ENTITIES)"
    by (simp add: pushed_events_filter [of g dadd _ s, OF g] boundary_events_replicate)
  have "\<forall>i. length (filter (\<lambda>e. a e = i) (pushed_events g s)) \<le> 2"
  proof
    fix i
    show "length (filter (\<lambda>e. a e = i) (pushed_events g s)) \<le> 2"
      by (subst cnt [rule_format]) simp
  qed
  with t mem cnt show ?thesis unfolding d by blast
qed

lemma pushed_events_scene_wall:
  assumes "\<And>i t p. snd (snd (g i t p)) = boundary_events (+) i t p"
  shows "pushed_events g scene_wall = [CollisionEvent 0 MAX_ENTITIES]"
proof -
  let ?f = "\<lambda>j. if m_entity_active scene_wall ! j
                 then snd (snd (g j (GetTransforms_Front scene_wall ! j) (m_physics scene_wall ! j)))
                 else []"
  have "concat (map ?f [0..<MAX_ENTITIES]) = ?f 0"
    by (rule concat_map_upt_first) (simp_all add: MAX_ENTITIES_pos scene_wall_facts(6))
  then show ?thesis
    by (simp add: pushed_events_def assms scene_wall_facts boundary_events_def)
qed

lemma CPhysicsThread_Run_body_01_step:
  assumes "wf_scene s"
  shows "GetTransforms_Front (fst (CPhysicsThread_Run_body_01 dadd s q)) =
           m_transforms (fst (Update_01 dadd s q)) ! nat (1 - m_frontBufferIndex s)"
    and "m_physics (fst (CPhysicsThread_Run_body_01 dadd s q)) = m_physics (fst (Update_01 dadd s q))"
    and "snd (CPhysicsThread_Run_body_01 dadd s q) = snd (Update_01 dadd s q)"
    and "m_frontBufferIndex (fst (CPhysicsThread_Run_body_01 dadd s q)) = 1 - m_frontBufferIndex s"
  using Update_01_step [OF assms, of dadd q]
  by (simp_all add: CPhysicsThread_Run_body_01_def SwapTransformBuffers_def
        GetTransforms_Front_def split_beta)

lemma CPhysicsThread_Run_body_step:
  assumes "wf_scene s"
  shows "GetTransforms_Front (fst (CPhysicsThread_Run_body dadd s q)) = GetTransforms_Front s"
    and "m_frontBufferIndex (fst (CPhysicsThread_Run_body dadd s q)) = m_frontBufferIndex s"
  using Update_step [OF assms, of dadd q]
  by (simp_all add: CPhysicsThread_Run_body_def SwapTransformBuffers_def
        GetTransforms_Front_def split_beta step_result_def)

text \<open>
  \<^verbatim>\<open>UpdateParallel\<close>, \<^verbatim>\<open>Update\<close> on its own, and an iteration of the earlier draft's
  \<^verbatim>\<open>CPhysicsThread::Run\<close> each flip the front index once; it stays 0 or 1.
\<close>

lemma front_index_flips_once:
  assumes "wf_scene s"
  shows "m_frontBufferIndex (fst (UpdateParallel dadd s q)) = 1 - m_frontBufferIndex s"
    and "m_frontBufferIndex (fst (Update dadd s q)) = 1 - m_frontBufferIndex s"
    and "m_frontBufferIndex (fst (CPhysicsThread_Run_body_01 dadd s q)) = 1 - m_frontBufferIndex s"
    and "m_frontBufferIndex (SwapTransformBuffers s) = 1 - m_frontBufferIndex s"
    and "m_frontBufferIndex (fst (UpdateParallel dadd s q)) = 0 \<or>
         m_frontBufferIndex (fst (UpdateParallel dadd s q)) = 1"
  using UpdateParallel_step [OF assms, of dadd q] Update_step [OF assms, of dadd q]
    CPhysicsThread_Run_body_01_step(4) [OF assms, of dadd q] assms
  by (auto simp: SwapTransformBuffers_def wf_scene_def)

text \<open>
  \<^verbatim>\<open>UpdateParallel\<close> on \<open>scene_wall\<close>: entity 0 goes from x = 78 with vx = 5 to x = 79
  with vx = -5, and the queue holds exactly one boundary event.
\<close>

lemma UpdateParallel_scene_wall:
  "x (GetTransforms_Front (fst (UpdateParallel (+) scene_wall [])) ! 0) = 79 \<and>
   vx (m_physics (fst (UpdateParallel (+) scene_wall [])) ! 0) = - 5 \<and>
   snd (UpdateParallel (+) scene_wall []) = [CollisionEvent 0 MAX_ENTITIES]"
proof -
  have nz: "vx (m_physics scene_wall ! 0) \<noteq> 0 \<or> vy (m_physics scene_wall ! 0) \<noteq> 0"
    by (simp add: scene_wall_facts)
  have "snd (UpdateParallel (+) scene_wall []) = [CollisionEvent 0 MAX_ENTITIES]"
    using UpdateParallel_step [OF wf_scene_scene_wall, of "(+)" "[]"]
      pushed_events_scene_wall [of "UpdateParallel_entity (+)", OF UpdateParallel_entity_events]
    by simp
  then show ?thesis
    using UpdateParallel_boundary [OF wf_scene_scene_wall MAX_ENTITIES_pos scene_wall_facts(4) nz,
            of "(+)" "[]"]
    by (simp add: Let_def scene_wall_facts)
qed

subsection \<open>RenderSystem\<close>

lemma fold_CollectParallel_body:
  "fold (CollectParallel_body tr rn ac) [0..<n] acc =
     acc @ map (\<lambda>i. RenderPacket (symbol (rn ! i)) (to_int (x (tr ! i))) (to_int (y (tr ! i))))
             (filter (\<lambda>i. ac ! i \<and> symbol (rn ! i) \<noteq> CHR '' '') [0..<n])"
  by (induction n) (simp_all add: CollectParallel_body_def)

lemma fold_Collect_body_01:
  "fold (Collect_body_01 tr rn ac) [0..<n] acc =
     acc @ map (\<lambda>i. RenderPacket (symbol (rn ! i)) (to_int (x (tr ! i))) (to_int (y (tr ! i))))
             (filter (\<lambda>i. ac ! i \<and> symbol (rn ! i) \<noteq> CHR 0x00) [0..<n])"
  by (induction n) (simp_all add: Collect_body_01_def)

text \<open>
  The packets of a snapshot: one per id in increasing order, for the ids that are active
  and whose glyph differs from the character the function compares with (the space in
  \<^verbatim>\<open>CollectParallel\<close>, the null character in the earlier draft's \<^verbatim>\<open>Collect\<close>), with the
  front-buffer coordinates truncated.
\<close>

lemma CollectParallel_packets:
  "CollectParallel s =
     map (\<lambda>i. RenderPacket (symbol (m_renders s ! i))
                 (to_int (x (GetTransforms_Front s ! i))) (to_int (y (GetTransforms_Front s ! i))))
       (filter (\<lambda>i. m_entity_active s ! i \<and> symbol (m_renders s ! i) \<noteq> CHR '' '')
          [0..<MAX_ENTITIES])"
  by (simp add: CollectParallel_def fold_CollectParallel_body LoadFrontIndex_def
        GetTransformsAt_def GetTransforms_Front_def Let_def)

lemma Collect_01_packets:
  "Collect_01 s =
     map (\<lambda>i. RenderPacket (symbol (m_renders s ! i))
                 (to_int (x (GetTransforms_Front s ! i))) (to_int (y (GetTransforms_Front s ! i))))
       (filter (\<lambda>i. m_entity_active s ! i \<and> symbol (m_renders s ! i) \<noteq> CHR 0x00)
          [0..<MAX_ENTITIES])"
  by (simp add: Collect_01_def fold_Collect_body_01)

lemma Collect_01_scene_created: "Collect_01 scene_created = []"
proof -
  have "filter (\<lambda>i. m_entity_active scene_created ! i \<and>
                  symbol (m_renders scene_created ! i) \<noteq> CHR 0x00) [0..<MAX_ENTITIES] = []"
    unfolding filter_empty_conv
  proof
    fix i assume "i \<in> set [0..<MAX_ENTITIES]"
    then have i: "i < MAX_ENTITIES" by simp
    show "\<not> (m_entity_active scene_created ! i \<and> symbol (m_renders scene_created ! i) \<noteq> CHR 0x00)"
      using scene_created_facts(3) scene_created_facts(6) [of i] i by (cases "i = 0") auto
  qed
  then show ?thesis by (simp add: Collect_01_packets)
qed

lemma wf_scene_healths_update:
  "wf_scene s \<Longrightarrow> wf_scene (s\<lparr>m_healths := (m_healths s)[k := h]\<rparr>)"
  by (simp add: wf_scene_def)

lemma scene_created_health: "health (m_healths scene_created ! 0) = 100"
  by (simp add: scene_created_def Scene_init_def HealthComponent_default_def MAX_ENTITIES_def)

subsection \<open>A snapshot taken while physics runs\<close>

lemma fold_interleaved_no_steps:
  "fold (CollectParallel_interleaved_body dadd (\<lambda>i. 0) c) [0..<n] (se, acc) =
     (se, fold (CollectParallel_body (GetTransformsAt (fst se) c) (m_renders (fst se))
                  (m_entity_active (fst se))) [0..<n] acc)"
  by (induction n) (simp_all add: CollectParallel_interleaved_body_def)

lemma CollectParallel_interleaved_no_steps:
  "CollectParallel_interleaved dadd (\<lambda>i. 0) s q = CollectParallel s"
  by (simp add: CollectParallel_interleaved_def CollectParallel_def Let_def
        fold_interleaved_no_steps)

lemma fold_interleaved_idle:
  assumes "\<forall>i\<in>set xs. steps_before i = 0 \<and> \<not> m_entity_active (fst se) ! i"
  shows "fold (CollectParallel_interleaved_body dadd steps_before c) xs (se, acc) = (se, acc)"
  using assms
  by (induction xs) (simp_all add: CollectParallel_interleaved_body_def CollectParallel_body_def)

lemma filter_upt_first_two:
  assumes "1 < n" and "P 0" and "P 1" and "\<And>j. 1 < j \<Longrightarrow> j < n \<Longrightarrow> \<not> P j"
  shows "filter P [0..<n] = [0, 1]"
proof -
  have "[0..<n] = 0 # Suc 0 # [Suc (Suc 0)..<n]" using assms(1) by (simp add: upt_conv_Cons)
  moreover have "filter P [Suc (Suc 0)..<n] = []"
    using assms(4) by (simp add: filter_empty_conv)
  ultimately show ?thesis using assms(2,3) by simp
qed

lemma UpdateParallel_inside:
  assumes wf: "wf_scene s" and j: "j < MAX_ENTITIES" "m_entity_active s ! j"
    and t: "GetTransforms_Front s ! j = \<lparr>x = tx, y = ty\<rparr>"
    and p: "m_physics s ! j = \<lparr>vx = 1, vy = 1\<rparr>"
    and r: "0 \<le> dadd tx 1" "dadd tx 1 \<le> 79" "0 \<le> dadd ty 1" "dadd ty 1 \<le> 24"
  shows "GetTransforms_Front (fst (UpdateParallel dadd s q)) ! j = \<lparr>x = dadd tx 1, y = dadd ty 1\<rparr>"
    and "m_physics (fst (UpdateParallel dadd s q)) ! j = \<lparr>vx = 1, vy = 1\<rparr>"
proof -
  note st = UpdateParallel_step [OF wf, of dadd q]
  from st have sr: "step_result (UpdateParallel_entity dadd) s (fst (UpdateParallel dadd s q))"
    by simp
  note e = step_result_entity [OF sr j]
  have g: "UpdateParallel_entity dadd j \<lparr>x = tx, y = ty\<rparr> \<lparr>vx = 1, vy = 1\<rparr> =
             (\<lparr>x = dadd tx 1, y = dadd ty 1\<rparr>, \<lparr>vx = 1, vy = 1\<rparr>, [])"
    using r by (simp add: UpdateParallel_entity_def Let_def)
  show "GetTransforms_Front (fst (UpdateParallel dadd s q)) ! j = \<lparr>x = dadd tx 1, y = dadd ty 1\<rparr>"
    using e(1) UpdateParallel_front(1) [OF wf, of dadd q] by (simp add: t p g)
  show "m_physics (fst (UpdateParallel dadd s q)) ! j = \<lparr>vx = 1, vy = 1\<rparr>"
    using e(2) by (simp add: t p g)
qed

lemma UpdateParallel_frame:
  assumes wf: "wf_scene s"
  shows "m_renders (fst (UpdateParallel dadd s q)) = m_renders s"
    and "m_entity_active (fst (UpdateParallel dadd s q)) = m_entity_active s"
    and "m_frontBufferIndex (fst (UpdateParallel dadd s q)) = 1 - m_frontBufferIndex s"
  using UpdateParallel_step [OF wf, of dadd q] by (simp_all add: step_result_def)

lemma scene_pair_facts:
  "wf_scene scene_pair"
  "m_frontBufferIndex scene_pair = 0"
  "GetTransforms_Front scene_pair ! 0 = \<lparr>x = 40, y = 12\<rparr>"
  "GetTransforms_Front scene_pair ! Suc 0 = \<lparr>x = 40, y = 12\<rparr>"
  "m_physics scene_pair ! 0 = \<lparr>vx = 1, vy = 1\<rparr>"
  "m_physics scene_pair ! Suc 0 = \<lparr>vx = 1, vy = 1\<rparr>"
  "m_renders scene_pair ! 0 = \<lparr>symbol = CHR ''@''\<rparr>"
  "m_renders scene_pair ! Suc 0 = \<lparr>symbol = CHR ''@''\<rparr>"
  "m_entity_active scene_pair ! 0"
  "m_entity_active scene_pair ! Suc 0"
  "1 < j \<Longrightarrow> j < MAX_ENTITIES \<Longrightarrow> \<not> m_entity_active scene_pair ! j"
  by (simp_all add: scene_pair_def wf_scene_def GetTransforms_Front_def MAX_ENTITIES_def)

lemma CollectParallel_two_active:
  assumes "m_entity_active s ! 0" "m_entity_active s ! Suc 0"
    and "\<And>j. 1 < j \<Longrightarrow> j < MAX_ENTITIES \<Longrightarrow> \<not> m_entity_active s ! j"
    and "m_renders s ! 0 = \<lparr>symbol = CHR ''@''\<rparr>" "m_renders s ! Suc 0 = \<lparr>symbol = CHR ''@''\<rparr>"
  shows "CollectParallel s =
           [RenderPacket (CHR ''@'') (to_int (x (GetTransforms_Front s ! 0)))
              (to_int (y (GetTransforms_Front s ! 0))),
            RenderPacket (CHR ''@'') (to_int (x (GetTransforms_Front s ! Suc 0)))
              (to_int (y (GetTransforms_Front s ! Suc 0)))]"
proof -
  have "filter (\<lambda>i. m_entity_active s ! i \<and> symbol (m_renders s ! i) \<noteq> CHR '' '')
          [0..<MAX_ENTITIES] = [0, 1]"
    by (rule filter_upt_first_two) (simp_all add: assms MAX_ENTITIES_def)
  then show ?thesis by (simp add: CollectParallel_packets assms)
qed

lemma to_int_numeral [simp]: "to_int (numeral n) = numeral n"
  by (simp add: to_int_def)

section \<open>Claims\<close>

text \<open>
  Claim C8. The event queue is strict FIFO. \<^verbatim>\<open>TryPop\<close> on the empty queue returns no
  event and leaves the queue empty; on a non-empty queue it returns the head and leaves the
  tail; \<^verbatim>\<open>Push\<close> appends at the end. For every sequence of pushes and pops run on a
  queue, the events popped, in the order they were popped, followed by the events still
  queued, are the events initially queued followed by the events pushed, in the order they
  were pushed: every pop returned the earliest event still in the queue. \<^verbatim>\<open>TryPop\<close> is a
  total function: it returns at once on every queue.
\<close>

theorem EventQueue_fifo:
  "TryPop [] = (None, []) \<and>
   TryPop (e # q) = (Some e, q) \<and>
   Push q e = q @ [e] \<and>
   popped (fst (run_ops ops q)) @ snd (run_ops ops q) = q @ pushed ops \<and>
   popped (fst (run_ops ops [])) @ snd (run_ops ops []) = pushed ops"
  using run_ops_fifo [of ops q] run_ops_fifo [of ops "[]"]
  by (simp add: TryPop_Nil TryPop_Cons Push_def)

text \<open>
  Claim C7. \<^verbatim>\<open>CreateEntity\<close> scans the active flags in increasing id order. If \<open>k\<close> is the
  smallest inactive id, it returns \<open>k\<close> and marks slot \<open>k\<close> active, changing nothing else;
  whenever some slot below \<^verbatim>\<open>MAX_ENTITIES\<close> is inactive the id returned is the least
  inactive one. If all \<^verbatim>\<open>MAX_ENTITIES\<close> slots are active, it returns \<^verbatim>\<open>MAX_ENTITIES\<close>,
  which is no entity id, and the scene is unchanged. Every index it reads or writes is
  below \<^verbatim>\<open>MAX_ENTITIES\<close>.
\<close>

theorem CreateEntity_first_inactive:
  assumes "wf_scene s"
  shows "(k < MAX_ENTITIES \<and> \<not> m_entity_active s ! k \<and> (\<forall>j<k. m_entity_active s ! j) \<longrightarrow>
            CreateEntity s = (k, s\<lparr>m_entity_active := (m_entity_active s)[k := True]\<rparr>) \<and>
            m_entity_active (snd (CreateEntity s)) ! k \<and>
            wf_scene (snd (CreateEntity s))) \<and>
         ((\<exists>j<MAX_ENTITIES. \<not> m_entity_active s ! j) \<longrightarrow>
            fst (CreateEntity s) = (LEAST j. \<not> m_entity_active s ! j) \<and>
            fst (CreateEntity s) < MAX_ENTITIES) \<and>
         ((\<forall>j<MAX_ENTITIES. m_entity_active s ! j) \<longrightarrow> CreateEntity s = (MAX_ENTITIES, s))"
proof (intro conjI impI)
  assume k: "k < MAX_ENTITIES \<and> \<not> m_entity_active s ! k \<and> (\<forall>j<k. m_entity_active s ! j)"
  then show eq: "CreateEntity s = (k, s\<lparr>m_entity_active := (m_entity_active s)[k := True]\<rparr>)"
    unfolding CreateEntity_def by (intro CreateEntity_loop_skip) simp_all
  show "m_entity_active (snd (CreateEntity s)) ! k"
    using eq k assms by (simp add: wf_scene_def)
  show "wf_scene (snd (CreateEntity s))"
    using eq assms by (simp add: wf_scene_def)
next
  assume ex: "\<exists>j<MAX_ENTITIES. \<not> m_entity_active s ! j"
  define m where "m = (LEAST j. \<not> m_entity_active s ! j)"
  from ex obtain j where j: "j < MAX_ENTITIES" "\<not> m_entity_active s ! j" by blast
  have m1: "\<not> m_entity_active s ! m" unfolding m_def using j(2) by (rule LeastI)
  have m2: "m \<le> j" unfolding m_def using j(2) by (rule Least_le)
  have m3: "\<forall>i<m. m_entity_active s ! i"
    unfolding m_def using not_less_Least by blast
  have "CreateEntity s = (m, s\<lparr>m_entity_active := (m_entity_active s)[m := True]\<rparr>)"
    unfolding CreateEntity_def using m1 m2 m3 j(1) by (intro CreateEntity_loop_skip) simp_all
  then show "fst (CreateEntity s) = (LEAST j. \<not> m_entity_active s ! j)"
    and "fst (CreateEntity s) < MAX_ENTITIES"
    using m2 j(1) by (simp_all add: m_def)
next
  assume "\<forall>j<MAX_ENTITIES. m_entity_active s ! j"
  then show "CreateEntity s = (MAX_ENTITIES, s)"
    unfolding CreateEntity_def by (intro CreateEntity_loop_full) simp
qed

text \<open>
  Both cases at concrete scenes: the freshly constructed scene yields id 0, the full scene
  yields \<^verbatim>\<open>MAX_ENTITIES\<close>.
\<close>

theorem CreateEntity_first_inactive_witness:
  "wf_scene Scene_init \<and> wf_scene scene_full \<and>
   CreateEntity Scene_init = (0, scene_created) \<and>
   m_entity_active (snd (CreateEntity Scene_init)) ! 0 \<and>
   fst (CreateEntity Scene_init) = (LEAST j. \<not> m_entity_active Scene_init ! j) \<and>
   CreateEntity scene_full = (MAX_ENTITIES, scene_full)"
proof -
  have a: "0 < MAX_ENTITIES \<and> \<not> m_entity_active Scene_init ! 0 \<and>
           (\<forall>j<0. m_entity_active Scene_init ! j)"
    by (simp add: Scene_init_def MAX_ENTITIES_def)
  have b: "\<exists>j<MAX_ENTITIES. \<not> m_entity_active Scene_init ! j"
    using a by blast
  have c: "\<forall>j<MAX_ENTITIES. m_entity_active scene_full ! j"
    by (simp add: scene_full_def)
  have d: "Scene_init\<lparr>m_entity_active := (m_entity_active Scene_init)[0 := True]\<rparr> = scene_created"
    by (simp add: scene_created_def Scene_init_def)
  have e: "m_entity_active scene_created ! 0"
    by (simp add: scene_created_def MAX_ENTITIES_def)
  show ?thesis
    using CreateEntity_first_inactive [OF wf_scene_Scene_init, of 0]
      CreateEntity_first_inactive [OF wf_scene_scene_full, of 0] a b c d e
      wf_scene_Scene_init wf_scene_scene_full
    by simp
qed

text \<open>
  Claim C9. Draining the queue through \<^verbatim>\<open>DamageSystem::DrainAndApply\<close> (every queued
  boundary event naming an entity below \<^verbatim>\<open>MAX_ENTITIES\<close>) returns with the queue empty and
  leaves both position buffers, the front index, the velocity table, the glyph table and
  the active flags as they were. The health of an entity changes only if the queue held a
  boundary event for it; in particular, if every queued event has a second id other than
  \<^verbatim>\<open>MAX_ENTITIES\<close>, the health table is unchanged.
\<close>

theorem DrainAndApply_frame:
  assumes "wf_scene s"
    and "\<forall>e\<in>set q. b e = MAX_ENTITIES \<longrightarrow> a e < MAX_ENTITIES"
  shows "\<exists>s' out'. DrainAndApply s q out = Inr (s', [], out') \<and>
           m_transforms s' = m_transforms s \<and>
           m_frontBufferIndex s' = m_frontBufferIndex s \<and>
           m_physics s' = m_physics s \<and>
           m_renders s' = m_renders s \<and>
           m_entity_active s' = m_entity_active s \<and>
           length (m_healths s') = length (m_healths s) \<and>
           (\<forall>i. (\<forall>e\<in>set q. b e = MAX_ENTITIES \<longrightarrow> a e \<noteq> i) \<longrightarrow>
                m_healths s' ! i = m_healths s ! i) \<and>
           ((\<forall>e\<in>set q. b e \<noteq> MAX_ENTITIES) \<longrightarrow> m_healths s' = m_healths s)"
proof -
  from assms have "\<forall>e\<in>set q. b e = MAX_ENTITIES \<longrightarrow> a e < length (m_healths s)"
    by (simp add: wf_scene_def)
  from DrainAndApply_total [OF this, of out]
  obtain hs out' where
    d: "DrainAndApply s q out = Inr (s\<lparr>m_healths := hs\<rparr>, [], out')" and
    len: "length hs = length (m_healths s)" and
    fr: "\<forall>i. (\<forall>e\<in>set q. b e = MAX_ENTITIES \<longrightarrow> a e \<noteq> i) \<longrightarrow> hs ! i = m_healths s ! i"
    by blast
  have "(\<forall>e\<in>set q. b e \<noteq> MAX_ENTITIES) \<longrightarrow> hs = m_healths s"
    using len fr by (auto intro: nth_equalityI)
  with d len fr show ?thesis by simp
qed

text \<open>
  At \<open>scene_wall\<close>: a queue with one boundary event and one entity-entity event, and a
  queue with the entity-entity event alone.
\<close>

theorem DrainAndApply_frame_witness:
  "wf_scene scene_wall \<and>
   a (CollisionEvent 0 MAX_ENTITIES) < MAX_ENTITIES \<and>
   b (CollisionEvent 0 1) \<noteq> MAX_ENTITIES \<and>
   (\<exists>s' out'. DrainAndApply scene_wall [CollisionEvent 0 MAX_ENTITIES, CollisionEvent 0 1] [] =
        Inr (s', [], out') \<and>
      m_transforms s' = m_transforms scene_wall \<and>
      m_frontBufferIndex s' = m_frontBufferIndex scene_wall \<and>
      m_physics s' = m_physics scene_wall \<and>
      m_renders s' = m_renders scene_wall \<and>
      m_entity_active s' = m_entity_active scene_wall \<and>
      m_healths s' ! 1 = m_healths scene_wall ! 1) \<and>
   (\<exists>s' out'. DrainAndApply scene_wall [CollisionEvent 0 1] [] = Inr (s', [], out') \<and>
      m_healths s' = m_healths scene_wall)"
proof -
  have h0: "a (CollisionEvent 0 MAX_ENTITIES) < MAX_ENTITIES \<and> b (CollisionEvent 0 1) \<noteq> MAX_ENTITIES"
    by (simp add: MAX_ENTITIES_def)
  have h1: "\<forall>e\<in>set [CollisionEvent 0 MAX_ENTITIES, CollisionEvent 0 1].
      b e = MAX_ENTITIES \<longrightarrow> a e < MAX_ENTITIES"
    using h0 by simp
  have h2: "\<forall>e\<in>set [CollisionEvent 0 1]. b e = MAX_ENTITIES \<longrightarrow> a e < MAX_ENTITIES"
    using h0 by simp
  have h3: "\<forall>e\<in>set [CollisionEvent 0 1]. b e \<noteq> MAX_ENTITIES"
    using h0 by simp
  have h4: "\<forall>e\<in>set [CollisionEvent 0 MAX_ENTITIES, CollisionEvent 0 1].
      b e = MAX_ENTITIES \<longrightarrow> a e \<noteq> 1"
    by simp
  from DrainAndApply_frame [OF wf_scene_scene_wall h1, of "[]"] h4
  have a1: "\<exists>s' out'. DrainAndApply scene_wall [CollisionEvent 0 MAX_ENTITIES, CollisionEvent 0 1] [] =
        Inr (s', [], out') \<and>
      m_transforms s' = m_transforms scene_wall \<and>
      m_frontBufferIndex s' = m_frontBufferIndex scene_wall \<and>
      m_physics s' = m_physics scene_wall \<and>
      m_renders s' = m_renders scene_wall \<and>
      m_entity_active s' = m_entity_active scene_wall \<and>
      m_healths s' ! 1 = m_healths scene_wall ! 1"
    by blast
  from DrainAndApply_frame [OF wf_scene_scene_wall h2, of "[]"] h3
  have a2: "\<exists>s' out'. DrainAndApply scene_wall [CollisionEvent 0 1] [] = Inr (s', [], out') \<and>
      m_healths s' = m_healths scene_wall"
    by blast
  show ?thesis using wf_scene_scene_wall h0 a1 a2 by blast
qed

text \<open>
  Claim C3, as amended. Whatever else the queue holds, the drain treats a boundary event for
  entity \<open>k\<close> at its head as follows and goes on with the rest of the queue: if the health
  of \<open>k\<close> is positive, it becomes \<open>max 0 (health - 10)\<close> and one line reporting the new
  health is written; if it is not positive, the health stays as it is and nothing is
  reported. An event whose second id is not \<^verbatim>\<open>MAX_ENTITIES\<close> is skipped, and the drain of
  the empty queue returns. These equations fix the result of every drain, event by event.
  A health that is not negative before a drain is not negative after it.
\<close>

theorem DrainAndApply_boundary_hit:
  assumes "wf_scene s" and "k < MAX_ENTITIES"
  shows "DrainAndApply s (CollisionEvent k MAX_ENTITIES # q) out =
           (if 0 < health (m_healths s ! k)
            then DrainAndApply
                   (s\<lparr>m_healths := (m_healths s)
                        [k := \<lparr>health = max 0 (health (m_healths s ! k) - 10)\<rparr>]\<rparr>)
                   q (out @ [(k, max 0 (health (m_healths s ! k) - 10))])
            else DrainAndApply s q out) \<and>
         (j \<noteq> MAX_ENTITIES \<longrightarrow>
            DrainAndApply s (CollisionEvent k j # q) out = DrainAndApply s q out) \<and>
         DrainAndApply s [] out = Inr (s, [], out) \<and>
         DrainAndApply s [CollisionEvent k MAX_ENTITIES] out =
           (if 0 < health (m_healths s ! k)
            then Inr (s\<lparr>m_healths := (m_healths s)
                          [k := \<lparr>health = max 0 (health (m_healths s ! k) - 10)\<rparr>]\<rparr>,
                      [], out @ [(k, max 0 (health (m_healths s ! k) - 10))])
            else Inr (s, [], out)) \<and>
         wf_scene (s\<lparr>m_healths := (m_healths s)
                      [k := \<lparr>health = max 0 (health (m_healths s ! k) - 10)\<rparr>]\<rparr>) \<and>
         (\<forall>q0 s' q' out'. DrainAndApply s q0 out = Inr (s', q', out') \<longrightarrow>
            (\<forall>i. 0 \<le> health (m_healths s ! i) \<longrightarrow> 0 \<le> health (m_healths s' ! i)))"
proof -
  from assms have lt: "k < length (m_healths s)" by (simp add: wf_scene_def)
  have hd: "DrainAndApply s (CollisionEvent k MAX_ENTITIES # q) out =
           (if 0 < health (m_healths s ! k)
            then DrainAndApply
                   (s\<lparr>m_healths := (m_healths s)
                        [k := \<lparr>health = max 0 (health (m_healths s ! k) - 10)\<rparr>]\<rparr>)
                   q (out @ [(k, max 0 (health (m_healths s ! k) - 10))])
            else DrainAndApply s q out)"
    using lt by (simp add: DrainAndApply_Cons visit_event_cases)
  have other: "j \<noteq> MAX_ENTITIES \<longrightarrow>
            DrainAndApply s (CollisionEvent k j # q) out = DrainAndApply s q out"
    by (simp add: DrainAndApply_Cons visit_event_cases)
  have nil: "DrainAndApply s [] out = Inr (s, [], out)"
    by (rule DrainAndApply_Nil)
  have one: "DrainAndApply s [CollisionEvent k MAX_ENTITIES] out =
           (if 0 < health (m_healths s ! k)
            then Inr (s\<lparr>m_healths := (m_healths s)
                          [k := \<lparr>health = max 0 (health (m_healths s ! k) - 10)\<rparr>]\<rparr>,
                      [], out @ [(k, max 0 (health (m_healths s ! k) - 10))])
            else Inr (s, [], out))"
    using lt by (simp add: DrainAndApply_Cons DrainAndApply_Nil visit_event_cases)
  have wf: "wf_scene (s\<lparr>m_healths := (m_healths s)
                      [k := \<lparr>health = max 0 (health (m_healths s ! k) - 10)\<rparr>]\<rparr>)"
    using assms(1) by (rule wf_scene_healths_update)
  have nn: "\<forall>q0 s' q' out'. DrainAndApply s q0 out = Inr (s', q', out') \<longrightarrow>
            (\<forall>i. 0 \<le> health (m_healths s ! i) \<longrightarrow> 0 \<le> health (m_healths s' ! i))"
    using DrainAndApply_nonneg by blast
  from hd other nil one wf nn show ?thesis by blast
qed

text \<open>
  Two boundary hits in one drain. Entity 0 of \<open>scene_wall\<close> has health 5: the first hit
  leaves 0 and is reported, the second leaves 0 and is not. Entity 0 of \<open>scene_created\<close>
  has health 100: two hits around an entity-entity event leave 80, with two reports.
\<close>

theorem DrainAndApply_boundary_hit_witness:
  "wf_scene scene_wall \<and> wf_scene scene_created \<and> 0 < MAX_ENTITIES \<and>
   health (m_healths scene_wall ! 0) = 5 \<and>
   DrainAndApply scene_wall [CollisionEvent 0 MAX_ENTITIES, CollisionEvent 0 MAX_ENTITIES] [] =
     Inr (scene_spent, [], [(0, 0)]) \<and>
   health (m_healths scene_created ! 0) = 100 \<and>
   DrainAndApply scene_created
     [CollisionEvent 0 MAX_ENTITIES, CollisionEvent 0 1, CollisionEvent 0 MAX_ENTITIES] [] =
     Inr (scene_created\<lparr>m_healths := (m_healths scene_created)[0 := \<lparr>health = 80\<rparr>]\<rparr>,
          [], [(0, 90), (0, 80)])"
proof -
  note pos = MAX_ENTITIES_pos
  have h5: "health (m_healths scene_wall ! 0) = 5"
    by (simp add: scene_wall_def MAX_ENTITIES_def)
  have h0: "health (m_healths scene_spent ! 0) = 0"
    by (simp add: scene_spent_def MAX_ENTITIES_def)
  have ne: "(1::nat) \<noteq> MAX_ENTITIES" by (simp add: MAX_ENTITIES_def)
  let ?hit = "CollisionEvent 0 MAX_ENTITIES"
  let ?s90 = "scene_created\<lparr>m_healths := (m_healths scene_created)[0 := \<lparr>health = 90\<rparr>]\<rparr>"
  let ?s80 = "scene_created\<lparr>m_healths := (m_healths scene_created)[0 := \<lparr>health = 80\<rparr>]\<rparr>"
  have len: "0 < length (m_healths scene_created)"
    using wf_scene_scene_created pos by (simp add: wf_scene_def)
  have wf90: "wf_scene ?s90"
    using wf_scene_scene_created by (rule wf_scene_healths_update)
  have h90: "health (m_healths ?s90 ! 0) = 90" using len by simp
  have upd: "?s90\<lparr>m_healths := (m_healths ?s90)[0 := \<lparr>health = 80\<rparr>]\<rparr> = ?s80" by simp
  have w1: "DrainAndApply scene_wall [?hit, ?hit] [] = DrainAndApply scene_spent [?hit] [(0, 0)]"
    using DrainAndApply_boundary_hit
            [OF wf_scene_scene_wall pos, where q = "[?hit]" and out = "[]"]
          h5 scene_wall_hit
    by simp
  have w2: "DrainAndApply scene_spent [?hit] [(0, 0)] = Inr (scene_spent, [], [(0, 0)])"
    using DrainAndApply_boundary_hit
            [OF wf_scene_scene_spent pos, where q = "[]" and out = "[(0, 0)]"]
          h0
    by simp
  have c1: "DrainAndApply scene_created [?hit, CollisionEvent 0 1, ?hit] [] =
              DrainAndApply ?s90 [CollisionEvent 0 1, ?hit] [(0, 90)]"
    using DrainAndApply_boundary_hit
            [OF wf_scene_scene_created pos,
             where q = "[CollisionEvent 0 1, ?hit]" and out = "[]"]
          scene_created_health
    by simp
  have c2: "DrainAndApply ?s90 [CollisionEvent 0 1, ?hit] [(0, 90)] =
              DrainAndApply ?s90 [?hit] [(0, 90)]"
    using DrainAndApply_boundary_hit
            [OF wf90 pos, where q = "[?hit]" and out = "[(0, 90)]" and j = 1] ne
    by simp
  have wf80: "wf_scene ?s80"
    using wf_scene_scene_created by (rule wf_scene_healths_update)
  have c3: "DrainAndApply ?s90 [?hit] [(0, 90)] = Inr (?s80, [], [(0, 90), (0, 80)])"
    using DrainAndApply_boundary_hit
            [OF wf90 pos, where q = "[]" and out = "[(0, 90)]"]
          DrainAndApply_boundary_hit
            [OF wf80 pos, where q = "[]" and out = "[(0, 90), (0, 80)]"]
          h90 upd
    by simp
  from w1 w2 c1 c2 c3 h5 scene_created_health wf_scene_scene_wall wf_scene_scene_created pos
  show ?thesis by simp
qed

text \<open>
  Claim C3 as stated fails twice. A boundary hit on an entity whose health is already 0 is
  not reported: the drain writes nothing. And a health that is negative before the drain
  (-5) is still negative after it: the guard skips the entity.
\<close>

theorem drain_silent_at_zero_and_keeps_negative:
  "DrainAndApply scene_spent [CollisionEvent 0 MAX_ENTITIES] [] = Inr (scene_spent, [], []) \<and>
   health (m_healths scene_negative ! 0) = - 5 \<and>
   DrainAndApply scene_negative [CollisionEvent 0 MAX_ENTITIES] [] = Inr (scene_negative, [], [])"
  by (simp add: DrainAndApply_Cons DrainAndApply_Nil visit_event_cases scene_spent_def
        scene_negative_def scene_wall_def MAX_ENTITIES_def)

text \<open>
  Claim C4. For every active entity \<open>i\<close>, a physics step (\<^verbatim>\<open>UpdateParallel\<close>, and
  \<^verbatim>\<open>Update\<close> of the earlier draft) writes slot \<open>i\<close> of the next buffer with a value
  computed from the current-buffer position and the velocity alone, whatever the slot held
  before. If the velocity is zero, the slot receives the current-buffer position itself,
  the velocity is unchanged and the step pushes no event for \<open>i\<close>. The buffer written is
  the one \<^verbatim>\<open>UpdateParallel\<close> publishes as front, and the back buffer of the earlier draft
  until its caller swaps.
\<close>

theorem physics_step_writes_active_slots:
  assumes "wf_scene s" and "i < MAX_ENTITIES" and "m_entity_active s ! i"
  shows "let nx = dadd (x (GetTransforms_Front s ! i)) (vx (m_physics s ! i));
             ny = dadd (y (GetTransforms_Front s ! i)) (vy (m_physics s ! i));
             still = (vx (m_physics s ! i) = 0 \<and> vy (m_physics s ! i) = 0);
             next_buffer = nat (1 - m_frontBufferIndex s);
             s1 = fst (UpdateParallel dadd s q);
             new1 = drop (length q) (snd (UpdateParallel dadd s q));
             s2 = fst (Update_01 dadd s q);
             new2 = drop (length q) (snd (Update_01 dadd s q))
         in m_transforms s1 ! next_buffer ! i =
              (if still then GetTransforms_Front s ! i
               else \<lparr>x = (if nx < 0 then 0 else if nx > 79 then 79 else nx),
                     y = (if ny < 0 then 0 else if ny > 24 then 24 else ny)\<rparr>) \<and>
            m_transforms s2 ! next_buffer ! i =
              (if still then GetTransforms_Front s ! i else \<lparr>x = nx, y = ny\<rparr>) \<and>
            GetTransforms_Front s1 = m_transforms s1 ! next_buffer \<and>
            GetTransforms_Back s2 = m_transforms s2 ! next_buffer \<and>
            (still \<longrightarrow>
               m_physics s1 ! i = m_physics s ! i \<and> m_physics s2 ! i = m_physics s ! i \<and>
               filter (\<lambda>e. a e = i) new1 = [] \<and> filter (\<lambda>e. a e = i) new2 = [])"
proof -
  note st1 = UpdateParallel_step [OF assms(1), of dadd q]
  note st2 = Update_01_step [OF assms(1), of dadd q]
  from st1 have sr1: "step_result (UpdateParallel_entity dadd) s (fst (UpdateParallel dadd s q))"
    by simp
  from st2 have sr2: "step_result (Update_entity_01 dadd) s (fst (Update_01 dadd s q))"
    by simp
  note e1 = step_result_entity [OF sr1 assms(2,3)]
  note e2 = step_result_entity [OF sr2 assms(2,3)]
  have ev1: "filter (\<lambda>e. a e = i) (drop (length q) (snd (UpdateParallel dadd s q))) =
               boundary_events dadd i (GetTransforms_Front s ! i) (m_physics s ! i)"
    using st1 assms(2,3)
      pushed_events_filter [of "UpdateParallel_entity dadd" dadd i s,
        OF UpdateParallel_entity_events]
    by simp
  have ev2: "filter (\<lambda>e. a e = i) (drop (length q) (snd (Update_01 dadd s q))) =
               boundary_events dadd i (GetTransforms_Front s ! i) (m_physics s ! i)"
    using st2 assms(2,3)
      pushed_events_filter [of "Update_entity_01 dadd" dadd i s, OF Update_entity_01_events]
    by simp
  have b2: "GetTransforms_Back (fst (Update_01 dadd s q)) =
              m_transforms (fst (Update_01 dadd s q)) ! nat (1 - m_frontBufferIndex s)"
    using st2 by (simp add: GetTransforms_Back_def)
  show ?thesis
    unfolding Let_def e1 e2 ev1 ev2
    using UpdateParallel_front(1) [OF assms(1), of dadd q] b2
    by (auto simp: UpdateParallel_entity_def Update_entity_01_def Let_def boundary_events_def)
qed

text \<open>
  At \<open>scene_created\<close> (entity 0 active, velocity zero) the slot receives the front
  position and no event is pushed; at \<open>scene_wall\<close> the slot receives the integrated
  position.
\<close>

theorem physics_step_writes_active_slots_witness:
  "wf_scene scene_created \<and> 0 < MAX_ENTITIES \<and> m_entity_active scene_created ! 0 \<and>
   vx (m_physics scene_created ! 0) = 0 \<and> vy (m_physics scene_created ! 0) = 0 \<and>
   m_transforms (fst (UpdateParallel (+) scene_created [])) ! 1 ! 0 =
     GetTransforms_Front scene_created ! 0 \<and>
   m_transforms (fst (Update_01 (+) scene_created [])) ! 1 ! 0 =
     GetTransforms_Front scene_created ! 0 \<and>
   m_physics (fst (UpdateParallel (+) scene_created [])) ! 0 = m_physics scene_created ! 0 \<and>
   filter (\<lambda>e. a e = 0) (snd (UpdateParallel (+) scene_created [])) = [] \<and>
   filter (\<lambda>e. a e = 0) (snd (Update_01 (+) scene_created [])) = [] \<and>
   wf_scene scene_wall \<and> m_entity_active scene_wall ! 0 \<and>
   m_transforms (fst (UpdateParallel (+) scene_wall [])) ! 1 ! 0 = \<lparr>x = 79, y = 12\<rparr> \<and>
   m_transforms (fst (Update_01 (+) scene_wall [])) ! 1 ! 0 = \<lparr>x = 83, y = 12\<rparr>"
  using physics_step_writes_active_slots
          [OF wf_scene_scene_created MAX_ENTITIES_pos scene_created_facts(4), of "(+)" "[]"]
        physics_step_writes_active_slots
          [OF wf_scene_scene_wall MAX_ENTITIES_pos scene_wall_facts(4), of "(+)" "[]"]
        wf_scene_scene_created wf_scene_scene_wall MAX_ENTITIES_pos
  by (simp add: Let_def scene_created_facts scene_wall_facts)

text \<open>
  Claim C10. Every event a physics step appends to the queue (\<^verbatim>\<open>UpdateParallel\<close>, and
  \<^verbatim>\<open>Update\<close> of the earlier draft) has the second id \<^verbatim>\<open>MAX_ENTITIES\<close> = 1000, which is no
  entity id, and a first id that is an active entity with nonzero velocity; the events
  already queued stay in front. For each entity the step pushes one event per axis whose
  integrated coordinate left its range, hence at most two, and none for an entity that is
  inactive or has zero velocity.
\<close>

theorem physics_events_boundary_only:
  assumes "wf_scene s"
  shows "(let new = drop (length q) (snd (UpdateParallel dadd s q))
          in take (length q) (snd (UpdateParallel dadd s q)) = q \<and>
             (\<forall>e\<in>set new.
                b e = MAX_ENTITIES \<and> a e < MAX_ENTITIES \<and> m_entity_active s ! a e \<and>
                (vx (m_physics s ! a e) \<noteq> 0 \<or> vy (m_physics s ! a e) \<noteq> 0)) \<and>
             (\<forall>i. filter (\<lambda>e. a e = i) new =
                replicate
                  (if i < MAX_ENTITIES \<and> m_entity_active s ! i \<and>
                      (vx (m_physics s ! i) \<noteq> 0 \<or> vy (m_physics s ! i) \<noteq> 0)
                   then (if dadd (x (GetTransforms_Front s ! i)) (vx (m_physics s ! i)) < 0 \<or>
                            dadd (x (GetTransforms_Front s ! i)) (vx (m_physics s ! i)) > 79
                         then 1 else 0) +
                        (if dadd (y (GetTransforms_Front s ! i)) (vy (m_physics s ! i)) < 0 \<or>
                            dadd (y (GetTransforms_Front s ! i)) (vy (m_physics s ! i)) > 24
                         then 1 else 0)
                   else 0)
                  (CollisionEvent i MAX_ENTITIES)) \<and>
             (\<forall>i. length (filter (\<lambda>e. a e = i) new) \<le> 2)) \<and>
         (let new = drop (length q) (snd (Update_01 dadd s q))
          in take (length q) (snd (Update_01 dadd s q)) = q \<and>
             (\<forall>e\<in>set new.
                b e = MAX_ENTITIES \<and> a e < MAX_ENTITIES \<and> m_entity_active s ! a e \<and>
                (vx (m_physics s ! a e) \<noteq> 0 \<or> vy (m_physics s ! a e) \<noteq> 0)) \<and>
             (\<forall>i. filter (\<lambda>e. a e = i) new =
                replicate
                  (if i < MAX_ENTITIES \<and> m_entity_active s ! i \<and>
                      (vx (m_physics s ! i) \<noteq> 0 \<or> vy (m_physics s ! i) \<noteq> 0)
                   then (if dadd (x (GetTransforms_Front s ! i)) (vx (m_physics s ! i)) < 0 \<or>
                            dadd (x (GetTransforms_Front s ! i)) (vx (m_physics s ! i)) > 79
                         then 1 else 0) +
                        (if dadd (y (GetTransforms_Front s ! i)) (vy (m_physics s ! i)) < 0 \<or>
                            dadd (y (GetTransforms_Front s ! i)) (vy (m_physics s ! i)) > 24
                         then 1 else 0)
                   else 0)
                  (CollisionEvent i MAX_ENTITIES)) \<and>
             (\<forall>i. length (filter (\<lambda>e. a e = i) new) \<le> 2)) \<and>
         MAX_ENTITIES = 1000"
proof -
  have q1: "snd (UpdateParallel dadd s q) = q @ pushed_events (UpdateParallel_entity dadd) s"
    using UpdateParallel_step [OF assms, of dadd q] by simp
  have q2: "snd (Update_01 dadd s q) = q @ pushed_events (Update_entity_01 dadd) s"
    using Update_01_step [OF assms, of dadd q] by simp
  show ?thesis
    unfolding Let_def
    using pushed_events_props [of "UpdateParallel_entity dadd" dadd _ q s,
            OF UpdateParallel_entity_events q1]
          pushed_events_props [of "Update_entity_01 dadd" dadd _ q s,
            OF Update_entity_01_events q2]
    by (simp add: MAX_ENTITIES_def)
qed

text \<open>
  At \<open>scene_wall\<close> the step pushes exactly one event, the boundary event of entity 0.
\<close>

theorem physics_events_boundary_only_witness:
  "wf_scene scene_wall \<and>
   snd (UpdateParallel (+) scene_wall []) = [CollisionEvent 0 MAX_ENTITIES] \<and>
   snd (Update_01 (+) scene_wall []) = [CollisionEvent 0 MAX_ENTITIES] \<and>
   b (hd (snd (UpdateParallel (+) scene_wall []))) = MAX_ENTITIES"
proof -
  note th = physics_events_boundary_only [OF wf_scene_scene_wall, of "[]" "(+)"]
  have only0: "\<And>e. a e < MAX_ENTITIES \<Longrightarrow> m_entity_active scene_wall ! a e \<Longrightarrow> a e = 0"
    using scene_wall_facts(6) by (metis neq0_conv)
  let ?n1 = "snd (UpdateParallel (+) scene_wall [])"
  let ?n2 = "snd (Update_01 (+) scene_wall [])"
  from th have all1: "\<forall>e\<in>set ?n1. a e = 0" and all2: "\<forall>e\<in>set ?n2. a e = 0"
    using only0 by (simp_all add: Let_def)
  from th have f1: "filter (\<lambda>e. a e = 0) ?n1 = [CollisionEvent 0 MAX_ENTITIES]"
    and f2: "filter (\<lambda>e. a e = 0) ?n2 = [CollisionEvent 0 MAX_ENTITIES]"
    by (simp_all add: Let_def scene_wall_facts MAX_ENTITIES_pos)
  from all1 have "filter (\<lambda>e. a e = 0) ?n1 = ?n1" by (simp add: filter_id_conv)
  with f1 have e1: "?n1 = [CollisionEvent 0 MAX_ENTITIES]" by simp
  from all2 have "filter (\<lambda>e. a e = 0) ?n2 = ?n2" by (simp add: filter_id_conv)
  with f2 have e2: "?n2 = [CollisionEvent 0 MAX_ENTITIES]" by simp
  from th have "\<forall>e\<in>set ?n1. b e = MAX_ENTITIES" by (simp add: Let_def)
  with e1 have "b (hd ?n1) = MAX_ENTITIES" by simp
  with e1 e2 wf_scene_scene_wall show ?thesis by simp
qed

text \<open>
  Claim C1 fails on the earlier draft's \<^verbatim>\<open>PhysicsSystem::Update\<close>: it negates the velocity
  and pushes the event but never writes the position back into range. An entity at x = 78
  with vx = 5 ends one step (\<^verbatim>\<open>Update\<close> and the swap of \<^verbatim>\<open>CPhysicsThread::Run\<close>) at
  x = 83 with vx = -5 and one boundary event queued.
\<close>

theorem Update_01_position_not_clamped:
  "x (GetTransforms_Front scene_wall ! 0) = 78 \<and>
   vx (m_physics scene_wall ! 0) = 5 \<and>
   x (GetTransforms_Front (fst (CPhysicsThread_Run_body_01 (+) scene_wall [])) ! 0) = 83 \<and>
   vx (m_physics (fst (CPhysicsThread_Run_body_01 (+) scene_wall [])) ! 0) = - 5 \<and>
   snd (CPhysicsThread_Run_body_01 (+) scene_wall []) = [CollisionEvent 0 MAX_ENTITIES]"
proof -
  note st = Update_01_step [OF wf_scene_scene_wall, of "(+)" "[]"]
  from st have sr: "step_result (Update_entity_01 (+)) scene_wall (fst (Update_01 (+) scene_wall []))"
    by simp
  note e = step_result_entity [OF sr MAX_ENTITIES_pos scene_wall_facts(4)]
  note r = CPhysicsThread_Run_body_01_step [OF wf_scene_scene_wall, of "(+)" "[]"]
  have ev: "snd (Update_01 (+) scene_wall []) = [CollisionEvent 0 MAX_ENTITIES]"
    using st pushed_events_scene_wall [of "Update_entity_01 (+)", OF Update_entity_01_events]
    by simp
  show ?thesis
    unfolding r e ev
    by (simp add: scene_wall_facts Update_entity_01_def Let_def)
qed

text \<open>
  Claim C2 fails on \<^verbatim>\<open>CPhysicsThread::Run\<close> of \<^verbatim>\<open>Thread/Thread.cpp\<close>: \<^verbatim>\<open>Update\<close>
  swaps the buffers before it returns and \<^verbatim>\<open>Run\<close> swaps them again, so a completed
  iteration leaves the front index where it was and the front buffer still shows the
  position from before the step.
\<close>

theorem CPhysicsThread_Run_body_flips_twice:
  "m_frontBufferIndex scene_wall = 0 \<and>
   m_frontBufferIndex (fst (Update (+) scene_wall [])) = 1 \<and>
   m_frontBufferIndex (fst (CPhysicsThread_Run_body (+) scene_wall [])) = 0 \<and>
   GetTransforms_Front (fst (CPhysicsThread_Run_body (+) scene_wall [])) ! 0 = \<lparr>x = 78, y = 12\<rparr>"
  using CPhysicsThread_Run_body_step [OF wf_scene_scene_wall, of "(+)" "[]"]
    Update_step [OF wf_scene_scene_wall, of "(+)" "[]"]
  by (simp add: scene_wall_facts)

text \<open>
  Claim C6 fails on \<^verbatim>\<open>RenderSystem::CollectParallel\<close>: it compares the glyph with the
  space character, not with the null character a \<^verbatim>\<open>RenderComponent\<close> starts with. For the
  scene right after one \<^verbatim>\<open>CreateEntity\<close>, whose entity still has the null glyph, it
  emits a packet carrying the null character.
\<close>

theorem CollectParallel_draws_null_glyph:
  "CreateEntity Scene_init = (0, scene_created) \<and>
   symbol (m_renders scene_created ! 0) = CHR 0x00 \<and>
   CollectParallel scene_created = [RenderPacket (CHR 0x00) 0 0]"
proof -
  have c: "CreateEntity Scene_init = (0, scene_created)"
    unfolding CreateEntity_def
    by (subst CreateEntity_loop.simps)
       (simp add: Scene_init_def scene_created_def MAX_ENTITIES_def)
  have "filter (\<lambda>i. m_entity_active scene_created ! i \<and>
                  symbol (m_renders scene_created ! i) \<noteq> CHR '' '') [0..<MAX_ENTITIES] = [0]"
    by (rule filter_upt_first) (simp_all add: MAX_ENTITIES_pos scene_created_facts)
  then have "CollectParallel scene_created = [RenderPacket (CHR 0x00) 0 0]"
    by (simp add: CollectParallel_packets scene_created_facts to_int_def)
  with c show ?thesis by (simp add: scene_created_facts)
qed

text \<open>
  Claim C5 fails on the free-running loops of \<^verbatim>\<open>main\<close> in \<^verbatim>\<open>Thread/Thread.cpp\<close>. The
  snapshot that loads front index 0, reads slot 0, and reads slot 1 after the physics
  thread has completed two steps shows entity 0 where it was before the first step and
  entity 1 where the second step put it: positions of two different steps in one snapshot,
  which is the snapshot of no single scene (those are listed first). After one step the
  index the snapshot holds (0) already names the buffer that physics writes next.
\<close>

theorem snapshot_mixes_two_physics_steps:
  "CollectParallel scene_pair =
     [RenderPacket (CHR ''@'') 40 12, RenderPacket (CHR ''@'') 40 12] \<and>
   CollectParallel (fst (physics_steps (+) 1 (scene_pair, []))) =
     [RenderPacket (CHR ''@'') 41 13, RenderPacket (CHR ''@'') 41 13] \<and>
   CollectParallel (fst (physics_steps (+) 2 (scene_pair, []))) =
     [RenderPacket (CHR ''@'') 42 14, RenderPacket (CHR ''@'') 42 14] \<and>
   CollectParallel_interleaved (+) two_steps_before_slot_1 scene_pair [] =
     [RenderPacket (CHR ''@'') 40 12, RenderPacket (CHR ''@'') 42 14] \<and>
   LoadFrontIndex scene_pair = 0 \<and>
   LoadFrontIndex (fst (physics_steps (+) 1 (scene_pair, []))) = 1"
proof -
  note f = scene_pair_facts
  let ?r1 = "UpdateParallel (+) scene_pair []"
  let ?s1 = "fst ?r1"
  let ?r2 = "UpdateParallel (+) ?s1 (snd ?r1)"
  let ?s2 = "fst ?r2"
  have ps1: "physics_steps (+) 1 (scene_pair, []) = ?r1" by simp
  have ps2: "physics_steps (+) 2 (scene_pair, []) = ?r2"
    by (simp add: numeral_2_eq_2)
  have pos: "0 < MAX_ENTITIES" "Suc 0 < MAX_ENTITIES" by (simp_all add: MAX_ENTITIES_def)
  \<comment> \<open>after the first step\<close>
  have wf1: "wf_scene ?s1" by (rule UpdateParallel_front(3) [OF f(1)])
  note fr1 = UpdateParallel_frame [OF f(1), of "(+)" "[]"]
  have t10: "GetTransforms_Front ?s1 ! 0 = \<lparr>x = 41, y = 13\<rparr>"
    using UpdateParallel_inside(1) [OF f(1) pos(1) f(9) f(3) f(5), of "(+)" "[]"] by simp
  have t11: "GetTransforms_Front ?s1 ! Suc 0 = \<lparr>x = 41, y = 13\<rparr>"
    using UpdateParallel_inside(1) [OF f(1) pos(2) f(10) f(4) f(6), of "(+)" "[]"] by simp
  have p10: "m_physics ?s1 ! 0 = \<lparr>vx = 1, vy = 1\<rparr>"
    using UpdateParallel_inside(2) [OF f(1) pos(1) f(9) f(3) f(5), of "(+)" "[]"] by simp
  have p11: "m_physics ?s1 ! Suc 0 = \<lparr>vx = 1, vy = 1\<rparr>"
    using UpdateParallel_inside(2) [OF f(1) pos(2) f(10) f(4) f(6), of "(+)" "[]"] by simp
  have a10: "m_entity_active ?s1 ! 0" and a11: "m_entity_active ?s1 ! Suc 0"
    using fr1(2) f(9,10) by simp_all
  have i1: "LoadFrontIndex ?s1 = 1" using fr1(3) f(2) by (simp add: LoadFrontIndex_def)
  \<comment> \<open>after the second step\<close>
  note fr2 = UpdateParallel_frame [OF wf1, of "(+)" "snd ?r1"]
  have t20: "GetTransforms_Front ?s2 ! 0 = \<lparr>x = 42, y = 14\<rparr>"
    using UpdateParallel_inside(1) [OF wf1 pos(1) a10 t10 p10, of "(+)" "snd ?r1"] by simp
  have t21: "GetTransforms_Front ?s2 ! Suc 0 = \<lparr>x = 42, y = 14\<rparr>"
    using UpdateParallel_inside(1) [OF wf1 pos(2) a11 t11 p11, of "(+)" "snd ?r1"] by simp
  have act2: "m_entity_active ?s2 = m_entity_active scene_pair"
    and ren2: "m_renders ?s2 = m_renders scene_pair"
    using fr1 fr2 by simp_all
  have i2: "m_frontBufferIndex ?s2 = 0" using fr2(3) i1 by (simp add: LoadFrontIndex_def)
  have g2: "GetTransformsAt ?s2 0 = GetTransforms_Front ?s2"
    using i2 by (simp add: GetTransformsAt_def GetTransforms_Front_def)
  \<comment> \<open>the three complete snapshots\<close>
  have c0: "CollectParallel scene_pair =
     [RenderPacket (CHR ''@'') 40 12, RenderPacket (CHR ''@'') 40 12]"
    using CollectParallel_two_active [of scene_pair] f by simp
  have c1: "CollectParallel ?s1 =
     [RenderPacket (CHR ''@'') 41 13, RenderPacket (CHR ''@'') 41 13]"
    using CollectParallel_two_active [of ?s1] f fr1 t10 t11 by simp
  have c2: "CollectParallel ?s2 =
     [RenderPacket (CHR ''@'') 42 14, RenderPacket (CHR ''@'') 42 14]"
    using CollectParallel_two_active [of ?s2] f act2 ren2 t20 t21 by simp
  \<comment> \<open>the interleaved snapshot\<close>
  let ?body = "CollectParallel_interleaved_body (+) two_steps_before_slot_1 0"
  have g0: "GetTransformsAt scene_pair 0 = GetTransforms_Front scene_pair"
    using f(2) by (simp add: GetTransformsAt_def GetTransforms_Front_def)
  have b0: "?body 0 ((scene_pair, []), []) = ((scene_pair, []), [RenderPacket (CHR ''@'') 40 12])"
    by (simp add: CollectParallel_interleaved_body_def two_steps_before_slot_1_def
          CollectParallel_body_def g0 f)
  have b1: "?body (Suc 0) ((scene_pair, []), [RenderPacket (CHR ''@'') 40 12]) =
              (?r2, [RenderPacket (CHR ''@'') 40 12, RenderPacket (CHR ''@'') 42 14])"
    using ps2
    by (simp add: CollectParallel_interleaved_body_def two_steps_before_slot_1_def
          CollectParallel_body_def Let_def g2 t21 act2 ren2 f)
  have idle: "\<forall>i\<in>set [Suc (Suc 0)..<MAX_ENTITIES].
                two_steps_before_slot_1 i = 0 \<and> \<not> m_entity_active (fst ?r2) ! i"
    using f(11) by (simp add: two_steps_before_slot_1_def act2)
  have up: "[0..<MAX_ENTITIES] = 0 # Suc 0 # [Suc (Suc 0)..<MAX_ENTITIES]"
    using pos by (simp add: upt_conv_Cons)
  have ci: "CollectParallel_interleaved (+) two_steps_before_slot_1 scene_pair [] =
     [RenderPacket (CHR ''@'') 40 12, RenderPacket (CHR ''@'') 42 14]"
    unfolding CollectParallel_interleaved_def Let_def LoadFrontIndex_def f(2) up
    by (simp only: fold_simps b0 b1 fold_interleaved_idle [OF idle] snd_conv)
  show ?thesis
    using c0 c1 c2 ci i1 f(2) by (simp only: ps1 ps2 LoadFrontIndex_def)
qed

end
